theory Spec2Isabelle
  imports Complex_Main "HOL-Library.Sublist" "HOL-Library.Multiset"
begin

section \<open>Python values used by the two tools\<close>

text \<open>
  The two scripts of the repository, \<^verbatim>\<open>find_missing_models.py\<close> and
  \<^verbatim>\<open>model_scraper.py\<close>, are embedded function by function. Python strings are
  modelled as ASCII character lists: \<^verbatim>\<open>str.lower\<close>, \<^verbatim>\<open>str.upper\<close> and
  \<^verbatim>\<open>str.title\<close> act on the letters A-Z and a-z only, which is what Python does on
  ASCII text (model identifiers of the catalogue are ASCII).
\<close>

subsection \<open>Strings\<close>

definition ascii_upper :: string where
  "ascii_upper = ''ABCDEFGHIJKLMNOPQRSTUVWXYZ''"

definition ascii_lower :: string where
  "ascii_lower = ''abcdefghijklmnopqrstuvwxyz''"

definition lower_char :: "char \<Rightarrow> char" where
  "lower_char c = (case map_of (zip ascii_upper ascii_lower) c of Some d \<Rightarrow> d | None \<Rightarrow> c)"

definition upper_char :: "char \<Rightarrow> char" where
  "upper_char c = (case map_of (zip ascii_lower ascii_upper) c of Some d \<Rightarrow> d | None \<Rightarrow> c)"

text \<open>\<^verbatim>\<open>s.lower()\<close> and \<^verbatim>\<open>s.upper()\<close>.\<close>

definition py_lower :: "string \<Rightarrow> string" where
  "py_lower s = map lower_char s"

definition py_upper :: "string \<Rightarrow> string" where
  "py_upper s = map upper_char s"

text \<open>\<^verbatim>\<open>s.replace(a, b)\<close> for one-character \<^verbatim>\<open>a\<close> and \<^verbatim>\<open>b\<close>.\<close>

definition replace_char :: "char \<Rightarrow> char \<Rightarrow> string \<Rightarrow> string" where
  "replace_char a b s = map (\<lambda>c. if c = a then b else c) s"

text \<open>
  \<^verbatim>\<open>s.replace(old, new)\<close> for a non-empty \<^verbatim>\<open>old\<close>: the occurrences are replaced from
  left to right and do not overlap.
\<close>

function py_replace :: "string \<Rightarrow> string \<Rightarrow> string \<Rightarrow> string" where
  "py_replace old new [] = []"
| "py_replace old new (c # cs) =
     (if old \<noteq> [] \<and> prefix old (c # cs)
      then new @ py_replace old new (drop (length old) (c # cs))
      else c # py_replace old new cs)"
  by pat_completeness auto
termination
  by (relation "measure (\<lambda>(old, new, s). length s)") (auto simp: neq_Nil_conv)

text \<open>
  \<^verbatim>\<open>s.split(sep)\<close> for a one-character separator: the result always has at least one
  element, so \<^verbatim>\<open>s.split(sep)[0]\<close> and \<^verbatim>\<open>s.split(sep)[-1]\<close> never raise.
\<close>

fun py_split :: "char \<Rightarrow> string \<Rightarrow> string list" where
  "py_split sep [] = [[]]"
| "py_split sep (c # cs) =
     (if c = sep then [] # py_split sep cs
      else (case py_split sep cs of
              [] \<Rightarrow> [[c]]
            | w # ws \<Rightarrow> (c # w) # ws))"

text \<open>\<^verbatim>\<open>sub in s\<close> on strings: \<^verbatim>\<open>sub\<close> occurs in \<^verbatim>\<open>s\<close> as a contiguous substring.\<close>

fun py_in :: "string \<Rightarrow> string \<Rightarrow> bool" where
  "py_in sub [] = (sub = [])"
| "py_in sub (c # cs) = (prefix sub (c # cs) \<or> py_in sub cs)"

text \<open>\<^verbatim>\<open>s.endswith(suf)\<close>, and with a tuple of suffixes.\<close>

definition py_endswith :: "string \<Rightarrow> string \<Rightarrow> bool" where
  "py_endswith s suf = suffix suf s"

definition py_endswith_any :: "string \<Rightarrow> string list \<Rightarrow> bool" where
  "py_endswith_any s sufs = list_ex (\<lambda>suf. py_endswith s suf) sufs"

text \<open>\<^verbatim>\<open>sep.join(xs)\<close>.\<close>

fun py_join :: "string \<Rightarrow> string list \<Rightarrow> string" where
  "py_join sep [] = []"
| "py_join sep [x] = x"
| "py_join sep (x # y # ys) = x @ sep @ py_join sep (y # ys)"

subsection \<open>Loosely typed values\<close>

text \<open>
  Values that come out of \<^verbatim>\<open>yaml.safe_load\<close> and out of the catalogue's JSON where the
  content is written by users (a registry file, the licence entry of a model card).
  Numbers are integers; floating-point numbers are not represented. An object is the
  list of its items in insertion order.
\<close>

datatype json =
    JNull
  | JBool bool
  | JInt int
  | JStr string
  | JArr "json list"
  | JObj "(string \<times> json) list"

text \<open>Python's truth value of such a value (\<^verbatim>\<open>if v\<close>, \<^verbatim>\<open>not v\<close>).\<close>

fun truthy :: "json \<Rightarrow> bool" where
  "truthy JNull = False"
| "truthy (JBool b) = b"
| "truthy (JInt n) = (n \<noteq> 0)"
| "truthy (JStr s) = (s \<noteq> [])"
| "truthy (JArr xs) = (xs \<noteq> [])"
| "truthy (JObj kvs) = (kvs \<noteq> [])"

text \<open>
  A Python \<^verbatim>\<open>dict\<close> whose iteration order matters is the list of its items in
  insertion order; \<^verbatim>\<open>d[k] = v\<close> keeps the position of a key that is already there.
\<close>

fun dict_set :: "('k \<times> 'v) list \<Rightarrow> 'k \<Rightarrow> 'v \<Rightarrow> ('k \<times> 'v) list" where
  "dict_set [] k v = [(k, v)]"
| "dict_set ((k', v') # d) k v =
     (if k' = k then (k, v) # d else (k', v') # dict_set d k v)"

section \<open>find\_missing\_models.py\<close>

subsection \<open>Registry loader: \<^verbatim>\<open>MissingModelsFinder.get_mot_models\<close>\<close>

text \<open>One value of the dictionary \<^verbatim>\<open>mot_models\<close>.\<close>

record mot_record =
  mot_name :: json
  mot_origin :: json
  mot_huggingface :: json
  mot_identifiers :: "string set"
  mot_file :: string

type_synonym registry = "(string \<times> mot_record) list"

text \<open>
  Why a file contributes no record: the \<^verbatim>\<open>continue\<close> of the check
  \<^verbatim>\<open>not data or 'release' not in data\<close>, or an exception caught by
  \<^verbatim>\<open>except Exception\<close> (which prints a warning and continues).
\<close>

datatype load_skip = SkipNoRelease | SkipException

text \<open>\<^verbatim>\<open>release.get(key, '')\<close>.\<close>

definition release_get :: "(string \<times> json) list \<Rightarrow> string \<Rightarrow> json" where
  "release_get release k = (case map_of release k of Some v \<Rightarrow> v | None \<Rightarrow> JStr [])"

text \<open>
  The three blocks that fill \<^verbatim>\<open>identifiers\<close>. Each is guarded by the truth value of
  the field; inside, \<^verbatim>\<open>.lower()\<close> and \<^verbatim>\<open>.replace()\<close> exist on strings only, so a
  truthy value of another type raises \<^verbatim>\<open>AttributeError\<close>.
\<close>

definition name_identifiers :: "json \<Rightarrow> load_skip + string set" where
  "name_identifiers model_name =
     (if \<not> truthy model_name then Inr {}
      else (case model_name of
              JStr s \<Rightarrow> Inr {py_lower s,
                             replace_char CHR ''-'' CHR ''_'' (py_lower s),
                             replace_char CHR ''_'' CHR ''-'' (py_lower s)}
            | _ \<Rightarrow> Inl SkipException))"

definition origin_identifiers :: "json \<Rightarrow> load_skip + string set" where
  "origin_identifiers origin =
     (if \<not> truthy origin then Inr {}
      else (case origin of
              JStr s \<Rightarrow> Inr {py_lower s}
            | _ \<Rightarrow> Inl SkipException))"

definition huggingface_identifiers :: "json \<Rightarrow> load_skip + string set" where
  "huggingface_identifiers huggingface =
     (if \<not> truthy huggingface then Inr {}
      else (case huggingface of
              JStr s \<Rightarrow> Inr {py_lower (py_replace ''https://huggingface.co/'' [] s)}
            | _ \<Rightarrow> Inl SkipException))"

text \<open>\<^verbatim>\<open>Path.stem\<close> of a file name: the name without its last suffix.\<close>

definition path_stem :: "string \<Rightarrow> string" where
  "path_stem name =
     (let k = length (takeWhile (\<lambda>c. c \<noteq> CHR ''.'') (rev name))
      in if CHR ''.'' \<in> set name \<and> 0 < k \<and> k + 1 < length name
         then take (length name - k - 1) name
         else name)"

text \<open>
  The body of the loop over the files, for one file: its name and what
  \<^verbatim>\<open>yaml.safe_load\<close> returned (\<open>None\<close> when opening or parsing raised). A document
  that is not a mapping either fails the test \<^verbatim>\<open>'release' not in data\<close> or raises at
  \<^verbatim>\<open>data['release']\<close>; a \<^verbatim>\<open>release\<close> entry that is not a mapping raises at
  \<^verbatim>\<open>release.get\<close>.
\<close>

definition load_record :: "string \<Rightarrow> json option \<Rightarrow> load_skip + mot_record" where
  "load_record file_name parsed =
     (case parsed of
        None \<Rightarrow> Inl SkipException
      | Some data \<Rightarrow>
          if \<not> truthy data then Inl SkipNoRelease
          else (case data of
                  JObj items \<Rightarrow>
                    (case map_of items ''release'' of
                       None \<Rightarrow> Inl SkipNoRelease
                     | Some (JObj release) \<Rightarrow>
                         (let model_name = release_get release ''name'';
                              origin = release_get release ''origin'';
                              huggingface = release_get release ''huggingface''
                          in case name_identifiers model_name of
                               Inl e \<Rightarrow> Inl e
                             | Inr ids1 \<Rightarrow>
                                 (case origin_identifiers origin of
                                    Inl e \<Rightarrow> Inl e
                                  | Inr ids2 \<Rightarrow>
                                      (case huggingface_identifiers huggingface of
                                         Inl e \<Rightarrow> Inl e
                                       | Inr ids3 \<Rightarrow>
                                           Inr \<lparr>mot_name = model_name,
                                                mot_origin = origin,
                                                mot_huggingface = huggingface,
                                                mot_identifiers = ids1 \<union> ids2 \<union> ids3,
                                                mot_file = file_name\<rparr>)))
                     | Some _ \<Rightarrow> Inl SkipException)
                | JArr xs \<Rightarrow> if JStr ''release'' \<in> set xs then Inl SkipException
                            else Inl SkipNoRelease
                | JStr s \<Rightarrow> if py_in ''release'' s then Inl SkipException
                           else Inl SkipNoRelease
                | _ \<Rightarrow> Inl SkipException))"

fun load_files :: "(string \<times> json option) list \<Rightarrow> registry \<Rightarrow> registry" where
  "load_files [] mot_models = mot_models"
| "load_files ((file_name, parsed) # files) mot_models =
     (case load_record file_name parsed of
        Inl _ \<Rightarrow> load_files files mot_models
      | Inr r \<Rightarrow> load_files files (dict_set mot_models (path_stem file_name) r))"

text \<open>
  The directory is \<open>None\<close> when it does not exist, and otherwise the files that
  \<^verbatim>\<open>glob("*.yml")\<close> lists, in the order it lists them.
\<close>

definition get_mot_models :: "(string \<times> json option) list option \<Rightarrow> registry" where
  "get_mot_models models_dir =
     (case models_dir of
        None \<Rightarrow> []
      | Some yaml_files \<Rightarrow> load_files yaml_files [])"

subsection \<open>Identifier matcher\<close>

text \<open>
  An entry of the catalogue's listing. A key that the entry lacks is \<open>None\<close>; the code
  reads every key with \<^verbatim>\<open>.get\<close> and a default.
\<close>

record hf_model =
  hf_id :: "string option"
  hf_downloads :: "int option"
  hf_tags :: "string list option"

text \<open>\<^verbatim>\<open>MissingModelsFinder.normalize_model_id\<close>.\<close>

definition normalize_model_id :: "string \<Rightarrow> string set" where
  "normalize_model_id model_id =
     (let variations = {py_lower model_id};
          variations =
            (if CHR ''/'' \<in> set model_id
             then (let model_name = last (py_split CHR ''/'' model_id)
                   in variations \<union> {py_lower model_name,
                                      replace_char CHR ''-'' CHR ''_'' (py_lower model_name),
                                      replace_char CHR ''_'' CHR ''-'' (py_lower model_name)})
             else variations)
      in variations \<union> {replace_char CHR ''-'' CHR ''_'' (py_lower model_id),
                        replace_char CHR ''_'' CHR ''-'' (py_lower model_id)})"

text \<open>
  \<^verbatim>\<open>MissingModelsFinder.is_model_in_mot\<close>: the loop over \<^verbatim>\<open>mot_models.items()\<close>
  returns at the first record whose identifiers meet the variations.
\<close>

fun match_loop :: "string set \<Rightarrow> registry \<Rightarrow> bool \<times> string" where
  "match_loop variations [] = (False, [])"
| "match_loop variations ((mot_file_key, mot_data) # rest) =
     (if variations \<inter> mot_identifiers mot_data \<noteq> {}
      then (True, mot_file mot_data)
      else match_loop variations rest)"

definition is_model_in_mot :: "hf_model \<Rightarrow> registry \<Rightarrow> bool \<times> string" where
  "is_model_in_mot hf mot_models =
     (let model_id = (case hf_id hf of Some i \<Rightarrow> i | None \<Rightarrow> []);
          variations = normalize_model_id model_id
      in match_loop variations mot_models)"

subsection \<open>Example inputs of the finder\<close>

text \<open>
  A registry file whose \<^verbatim>\<open>release\<close> mapping holds a name only, and a catalogue entry
  that holds an identifier only.
\<close>

definition registry_doc :: "string \<Rightarrow> json" where
  "registry_doc n = JObj [(''release'', JObj [(''name'', JStr n)])]"

definition remote :: "string \<Rightarrow> hf_model" where
  "remote i = \<lparr>hf_id = Some i, hf_downloads = None, hf_tags = None\<rparr>"

subsection \<open>Missing-set builder: \<^verbatim>\<open>MissingModelsFinder.categorize_missing_models\<close>\<close>

text \<open>\<^verbatim>\<open>model.get('downloads', 0)\<close> and \<^verbatim>\<open>model.get('tags', [])\<close>.\<close>

definition get_downloads :: "hf_model \<Rightarrow> int" where
  "get_downloads model = (case hf_downloads model of Some d \<Rightarrow> d | None \<Rightarrow> 0)"

definition get_tags :: "hf_model \<Rightarrow> string list" where
  "get_tags model = (case hf_tags model of Some ts \<Rightarrow> ts | None \<Rightarrow> [])"

definition type_tags :: "string list" where
  "type_tags = [''text-generation'', ''text2text-generation'',
                ''image-to-text'', ''text-to-image'',
                ''automatic-speech-recognition'', ''audio-classification'',
                ''image-classification'', ''object-detection'']"

text \<open>
  The loop \<^verbatim>\<open>for tag in tags: if tag in type_tags: model_type = tag; break\<close>, started
  with the value that \<^verbatim>\<open>model_type\<close> has before the loop.
\<close>

fun first_type_tag :: "string list \<Rightarrow> string \<Rightarrow> string" where
  "first_type_tag [] model_type = model_type"
| "first_type_tag (tag # tags) model_type =
     (if tag \<in> set type_tags then tag else first_type_tag tags model_type)"

definition model_type_of :: "hf_model \<Rightarrow> string" where
  "model_type_of model = first_type_tag (get_tags model) ''other''"

text \<open>The dictionary \<^verbatim>\<open>categories\<close>; \<^verbatim>\<open>by_type\<close> keeps its keys in insertion order.\<close>

record categories =
  high_priority :: "hf_model list"
  medium_priority :: "hf_model list"
  low_priority :: "hf_model list"
  by_type :: "(string \<times> hf_model list) list"

definition empty_categories :: categories where
  "empty_categories =
     \<lparr>high_priority = [], medium_priority = [], low_priority = [], by_type = []\<rparr>"

text \<open>
  \<^verbatim>\<open>if k not in d: d[k] = []\<close> followed by \<^verbatim>\<open>d[k].append(v)\<close>: a new key goes to
  the end, an old key keeps its place.
\<close>

fun dict_append :: "('k \<times> 'v list) list \<Rightarrow> 'k \<Rightarrow> 'v \<Rightarrow> ('k \<times> 'v list) list" where
  "dict_append [] k v = [(k, [v])]"
| "dict_append ((k', vs) # d) k v =
     (if k' = k then (k', vs @ [v]) # d else (k', vs) # dict_append d k v)"

text \<open>The body of the loop over \<^verbatim>\<open>missing_models\<close>.\<close>

definition categorize_step :: "categories \<Rightarrow> hf_model \<Rightarrow> categories" where
  "categorize_step c model =
     (let downloads = get_downloads model;
          c1 = (if downloads \<ge> 100000
                then c\<lparr>high_priority := high_priority c @ [model]\<rparr>
                else if downloads \<ge> 10000
                then c\<lparr>medium_priority := medium_priority c @ [model]\<rparr>
                else c\<lparr>low_priority := low_priority c @ [model]\<rparr>);
          model_type = model_type_of model
      in c1\<lparr>by_type := dict_append (by_type c1) model_type model\<rparr>)"

definition categorize_missing_models :: "hf_model list \<Rightarrow> categories" where
  "categorize_missing_models missing_models =
     foldl categorize_step empty_categories missing_models"

subsection \<open>Reporter: \<^verbatim>\<open>MissingModelsFinder.generate_report\<close>\<close>

text \<open>Decimal digits of a natural number, and Python's format specification \<^verbatim>\<open>,\<close>
  (a comma between groups of three digits, counted from the right).\<close>

fun digits :: "nat \<Rightarrow> string" where
  "digits n = (if n < 10 then [''0123456789'' ! n]
               else digits (n div 10) @ [''0123456789'' ! (n mod 10)])"

declare digits.simps [simp del]

fun group3_rev :: "string \<Rightarrow> string" where
  "group3_rev (a # b # c # d # rest) = a # b # c # CHR '','' # group3_rev (d # rest)"
| "group3_rev s = s"

definition fmt_commas :: "int \<Rightarrow> string" where
  "fmt_commas i =
     (if i < 0 then CHR ''-'' # rev (group3_rev (rev (digits (nat (- i)))))
      else rev (group3_rev (rev (digits (nat i)))))"

text \<open>
  Padding to a minimum width: \<^verbatim>\<open>{s:30s}\<close> pads a string on the right,
  \<^verbatim>\<open>{n:5,}\<close> and \<^verbatim>\<open>{n:>10,}\<close> pad a number on the left.
\<close>

definition ljust :: "nat \<Rightarrow> string \<Rightarrow> string" where
  "ljust w s = s @ replicate (w - length s) CHR '' ''"

definition rjust :: "nat \<Rightarrow> string \<Rightarrow> string" where
  "rjust w s = replicate (w - length s) CHR '' '' @ s"

text \<open>
  \<^verbatim>\<open>sorted(xs, key=f, reverse=True)\<close>: Python's sort is stable, also with
  \<^verbatim>\<open>reverse=True\<close>, so the result is in descending order of the key and elements of
  equal key keep their order in \<^verbatim>\<open>xs\<close>. That is the stable ascending sort by the
  negated key.
\<close>

definition py_sorted_desc :: "('a \<Rightarrow> int) \<Rightarrow> 'a list \<Rightarrow> 'a list" where
  "py_sorted_desc f xs = sort_key (\<lambda>x. - f x) xs"

text \<open>\<^verbatim>\<open>model.get('id', 'unknown')\<close>.\<close>

definition get_id_or_unknown :: "hf_model \<Rightarrow> string" where
  "get_id_or_unknown model = (case hf_id model of Some i \<Rightarrow> i | None \<Rightarrow> ''unknown'')"

definition rule_line :: "char \<Rightarrow> string" where
  "rule_line c = replicate 80 c"

text \<open>The lists the three loops of the report run over.\<close>

definition type_rows :: "categories \<Rightarrow> (string \<times> hf_model list) list" where
  "type_rows c = py_sorted_desc (\<lambda>x. int (length (snd x))) (by_type c)"

definition high_listing :: "categories \<Rightarrow> hf_model list" where
  "high_listing c = take 50 (py_sorted_desc get_downloads (high_priority c))"

definition medium_listing :: "categories \<Rightarrow> hf_model list" where
  "medium_listing c = take 20 (py_sorted_desc get_downloads (medium_priority c))"

definition command_listing :: "categories \<Rightarrow> hf_model list" where
  "command_listing c = take 10 (py_sorted_desc get_downloads (high_priority c))"

text \<open>The lines each part of the report appends to \<^verbatim>\<open>report_lines\<close>.\<close>

definition summary_section :: "hf_model list \<Rightarrow> registry \<Rightarrow> categories \<Rightarrow> string list" where
  "summary_section missing_models mot_models c =
     [rule_line CHR ''='',
      ''MODEL OPENNESS TOOL - MISSING MODELS REPORT'',
      rule_line CHR ''='',
      [],
      ''SUMMARY'',
      rule_line CHR ''-'',
      ''Models in MOT database:     '' @ fmt_commas (int (length mot_models)),
      ''Missing models found:       '' @ fmt_commas (int (length missing_models)),
      ''  - High priority (>100k):  '' @ fmt_commas (int (length (high_priority c))),
      ''  - Medium priority (10k+): '' @ fmt_commas (int (length (medium_priority c))),
      ''  - Low priority (<10k):    '' @ fmt_commas (int (length (low_priority c))),
      []]"

definition type_line :: "string \<times> hf_model list \<Rightarrow> string" where
  "type_line x =
     ''  '' @ ljust 30 (fst x) @ '' '' @ rjust 5 (fmt_commas (int (length (snd x)))) @ '' models''"

definition by_type_section :: "categories \<Rightarrow> string list" where
  "by_type_section c =
     [''MISSING MODELS BY TYPE'', rule_line CHR ''-'']
     @ map type_line (type_rows c)
     @ [[]]"

definition high_entry :: "hf_model \<Rightarrow> string list" where
  "high_entry model =
     (let model_id = get_id_or_unknown model;
          downloads = get_downloads model;
          tags = py_join '', '' (take 3 (get_tags model))
      in [''  '' @ ljust 50 model_id @ '' '' @ rjust 10 (fmt_commas downloads) @ '' downloads'']
         @ (if tags \<noteq> [] then [''    Tags: '' @ tags] else [])
         @ [''    URL: https://huggingface.co/'' @ model_id,
            []])"

definition high_section :: "categories \<Rightarrow> string list" where
  "high_section c =
     (if high_priority c \<noteq> []
      then [''HIGH PRIORITY MODELS (>100,000 downloads)'', rule_line CHR ''-'']
           @ concat (map high_entry (high_listing c))
      else [])"

definition medium_entry :: "hf_model \<Rightarrow> string" where
  "medium_entry model =
     ''  '' @ ljust 50 (get_id_or_unknown model) @ '' ''
     @ rjust 10 (fmt_commas (get_downloads model)) @ '' downloads''"

definition medium_section :: "categories \<Rightarrow> string list" where
  "medium_section c =
     (if medium_priority c \<noteq> []
      then [''MEDIUM PRIORITY MODELS (10,000-100,000 downloads)'',
            rule_line CHR ''-'',
            ''Total: '' @ digits (length (medium_priority c)) @ '' models'',
            ''Top 20:'']
           @ map medium_entry (medium_listing c)
           @ [[]]
      else [])"

definition commands_section :: "categories \<Rightarrow> string list" where
  "commands_section c =
     [''SUGGESTED SCRAPING COMMANDS'',
      rule_line CHR ''-'',
      ''High priority models (copy and run):'',
      []]
     @ map (\<lambda>model. ''python model_scraper.py '' @ get_id_or_unknown model) (command_listing c)
     @ [[], rule_line CHR ''='']"

definition report_lines :: "hf_model list \<Rightarrow> registry \<Rightarrow> string list" where
  "report_lines missing_models mot_models =
     (let c = categorize_missing_models missing_models
      in summary_section missing_models mot_models c
         @ by_type_section c
         @ high_section c
         @ medium_section c
         @ commands_section c)"

text \<open>
  The result is the report text and, when \<^verbatim>\<open>output_file\<close> is given and not empty,
  the file written: its path and its content.
\<close>

definition generate_report ::
  "hf_model list \<Rightarrow> registry \<Rightarrow> string option \<Rightarrow> string \<times> (string \<times> string) option" where
  "generate_report missing_models mot_models output_file =
     (let report_text = py_join [CHR 0x0A] (report_lines missing_models mot_models)
      in (report_text,
          (case output_file of
             None \<Rightarrow> None
           | Some path \<Rightarrow> if path \<noteq> [] then Some (path, report_text) else None)))"

text \<open>A catalogue entry with all three keys.\<close>

definition listed :: "string \<Rightarrow> int \<Rightarrow> string list \<Rightarrow> hf_model" where
  "listed i d ts = \<lparr>hf_id = Some i, hf_downloads = Some d, hf_tags = Some ts\<rparr>"

text \<open>A listing with ties in the download counts and in the type counts.\<close>

definition sample_listing :: "hf_model list" where
  "sample_listing =
     [listed ''a/x'' 500000 [''pytorch'', ''text-generation''],
      listed ''b/y'' 50000 [],
      listed ''c/z'' 5000 [''text-to-image'', ''text-generation''],
      listed ''d/u'' 1234567 [''text-generation''],
      listed ''e/v'' 50000 [],
      listed ''f/w'' 500000 [''text-to-image'']]"

section \<open>model\_scraper.py\<close>

subsection \<open>Scraped data\<close>

text \<open>
  The keys of the catalogue's model-info object that the scraper reads. The catalogue
  fixes their types (a list of tag strings, a timestamp string, the front matter of the
  model card as a mapping); what the front matter holds under \<^verbatim>\<open>license\<close> is written
  by the model's author and is kept as a loosely typed value. A key that is absent is
  \<open>None\<close>.
\<close>

record model_info =
  mi_tags :: "string list option"
  mi_lastModified :: "string option"
  mi_cardData :: "(string \<times> json) list option"

text \<open>
  The dictionary \<^verbatim>\<open>scraped_data\<close> that \<^verbatim>\<open>scrape_huggingface_model\<close> builds. Its entry
  \<^verbatim>\<open>confidence\<close>, always an empty dictionary and never read, is left out.
\<close>

record scraped_data =
  sd_model_id :: string
  sd_model_info :: model_info
  sd_model_card :: string
  sd_repo_files :: "string list"

subsection \<open>Single-model fetch: \<^verbatim>\<open>ModelScraper.scrape_huggingface_model\<close>\<close>

text \<open>
  What one \<^verbatim>\<open>session.get\<close> gives: it raises a \<^verbatim>\<open>RequestException\<close> (no connection,
  timeout), or it returns a response with a status code and a body. The body of the
  model-info and of the file-tree response is what \<^verbatim>\<open>response.json()\<close> makes of it:
  \<open>None\<close> when the body is not JSON, in which case \<^verbatim>\<open>json()\<close> raises the library's
  \<^verbatim>\<open>JSONDecodeError\<close>, itself a \<^verbatim>\<open>RequestException\<close>. A file-tree body that is JSON
  is taken to follow the catalogue's schema, a list of entries with a string
  \<^verbatim>\<open>path\<close>, and is given as the list of these paths.
\<close>

datatype 'a http_result = RequestFailed | Response nat 'a

text \<open>\<^verbatim>\<open>response.raise_for_status()\<close> raises for the client and server error codes.\<close>

definition raises_for_status :: "nat \<Rightarrow> bool" where
  "raises_for_status status = (400 \<le> status \<and> status < 600)"

definition fetch_model_card :: "string http_result \<Rightarrow> string" where
  "fetch_model_card card_response =
     (case card_response of
        RequestFailed \<Rightarrow> []
      | Response status_code text \<Rightarrow> if status_code = 200 then text else [])"

definition fetch_repo_files :: "string list option http_result \<Rightarrow> string list" where
  "fetch_repo_files files_response =
     (case files_response of
        RequestFailed \<Rightarrow> []
      | Response status_code body \<Rightarrow>
          if status_code = 200
          then (case body of None \<Rightarrow> [] | Some paths \<Rightarrow> paths)
          else [])"

text \<open>The result \<open>None\<close> is the empty dictionary that the function returns on failure.\<close>

definition scrape_huggingface_model ::
  "string \<Rightarrow> model_info option http_result \<Rightarrow> string http_result
     \<Rightarrow> string list option http_result \<Rightarrow> scraped_data option" where
  "scrape_huggingface_model model_id info_response card_response files_response =
     (case info_response of
        RequestFailed \<Rightarrow> None
      | Response status_code body \<Rightarrow>
          if raises_for_status status_code then None
          else (case body of
                  None \<Rightarrow> None
                | Some model_info \<Rightarrow>
                    Some \<lparr>sd_model_id = model_id,
                          sd_model_info = model_info,
                          sd_model_card = fetch_model_card card_response,
                          sd_repo_files = fetch_repo_files files_response\<rparr>))"

subsection \<open>Licence detection: \<^verbatim>\<open>ModelScraper._detect_license\<close>\<close>

text \<open>
  The second half of the function: the test for a licence file and the two
  \<^verbatim>\<open>return 'unlicensed'\<close> that follow it.
\<close>

definition license_from_files :: "string list \<Rightarrow> json" where
  "license_from_files repo_files =
     (if list_ex (\<lambda>f. py_upper f = ''LICENSE'' \<or> py_upper f = ''LICENSE.md'') repo_files
      then JStr ''unlicensed''
      else JStr ''unlicensed'')"

definition detect_license :: "scraped_data \<Rightarrow> json" where
  "detect_license scraped =
     (let model_info = sd_model_info scraped
      in case mi_cardData model_info of
           None \<Rightarrow> license_from_files (sd_repo_files scraped)
         | Some cardData \<Rightarrow>
             (case map_of cardData ''license'' of
                None \<Rightarrow> license_from_files (sd_repo_files scraped)
              | Some license_name \<Rightarrow>
                  if truthy license_name \<and> license_name \<noteq> JStr ''other''
                  then license_name
                  else license_from_files (sd_repo_files scraped)))"

subsection \<open>Component detection: \<^verbatim>\<open>ModelScraper.detect_components\<close>\<close>

record component =
  comp_name :: string
  comp_description :: string
  comp_license :: json
  comp_confidence :: rat
  comp_location :: string

text \<open>\<^verbatim>\<open>any(keyword in text for keyword in keywords)\<close>.\<close>

definition any_keyword :: "string list \<Rightarrow> string \<Rightarrow> bool" where
  "any_keyword keywords text = list_ex (\<lambda>keyword. py_in keyword text) keywords"

text \<open>The nine detectors, in the order of the source; each appends one component or none.\<close>

definition detect_parameters :: "scraped_data \<Rightarrow> component list" where
  "detect_parameters scraped =
     (if list_ex (\<lambda>f. py_endswith_any f [''.bin'', ''.safetensors'', ''.pt'', ''.pth'', ''.ckpt''])
           (sd_repo_files scraped)
      then [\<lparr>comp_name = ''Model parameters (Final)'',
             comp_description = ''Trained model parameters, weights and biases'',
             comp_license = detect_license scraped,
             comp_confidence = 95 / 100,
             comp_location = ''HuggingFace repository''\<rparr>]
      else [])"

definition detect_metadata :: "scraped_data \<Rightarrow> component list" where
  "detect_metadata scraped =
     (if list_ex (\<lambda>f. f \<in> set (sd_repo_files scraped))
           [''config.json'', ''model_config.json'', ''configuration.json'']
      then [\<lparr>comp_name = ''Model metadata'',
             comp_description =
               ''Any model metadata including training configuration and optimizer states'',
             comp_license = detect_license scraped,
             comp_confidence = 90 / 100,
             comp_location = ''HuggingFace repository''\<rparr>]
      else [])"

definition detect_architecture_code :: "scraped_data \<Rightarrow> component list" where
  "detect_architecture_code scraped =
     (if list_ex (\<lambda>f. py_endswith f ''.py'') (sd_repo_files scraped)
         \<or> py_in ''modeling'' (py_join '' '' (sd_repo_files scraped))
      then [\<lparr>comp_name = ''Model architecture'',
             comp_description = ''Well commented code for the model's architecture'',
             comp_license = detect_license scraped,
             comp_confidence = 85 / 100,
             comp_location = ''HuggingFace repository''\<rparr>]
      else [])"

definition detect_inference_code :: "scraped_data \<Rightarrow> component list" where
  "detect_inference_code scraped =
     (if list_ex (\<lambda>f. py_in ''inference'' (py_lower f) \<or> py_in ''generate'' (py_lower f))
           (sd_repo_files scraped)
      then [\<lparr>comp_name = ''Inference code'',
             comp_description = ''Code used for running the model to make predictions'',
             comp_license = detect_license scraped,
             comp_confidence = 80 / 100,
             comp_location = ''HuggingFace repository''\<rparr>]
      else [])"

definition detect_model_card :: "scraped_data \<Rightarrow> component list" where
  "detect_model_card scraped =
     (if ''README.md'' \<in> set (sd_repo_files scraped) \<or> py_lower (sd_model_card scraped) \<noteq> []
      then [\<lparr>comp_name = ''Model card'',
             comp_description =
               ''Model details including performance metrics, intended use, and limitations'',
             comp_license = detect_license scraped,
             comp_confidence = 95 / 100,
             comp_location = ''HuggingFace repository''\<rparr>]
      else [])"

definition detect_technical_report :: "scraped_data \<Rightarrow> component list" where
  "detect_technical_report scraped =
     (if any_keyword [''technical report'', ''tech report'', ''documentation'']
           (py_lower (sd_model_card scraped))
      then [\<lparr>comp_name = ''Technical report'',
             comp_description =
               ''Technical report detailing capabilities and usage instructions for the model'',
             comp_license = JStr ''unlicensed'',
             comp_confidence = 60 / 100,
             comp_location = ''Referenced in model card''\<rparr>]
      else [])"

definition detect_research_paper :: "scraped_data \<Rightarrow> component list" where
  "detect_research_paper scraped =
     (if any_keyword [''paper'', ''arxiv'', ''publication''] (py_lower (sd_model_card scraped))
      then [\<lparr>comp_name = ''Research paper'',
             comp_description =
               ''Research paper detailing the development and capabilities of the model'',
             comp_license = JStr ''unlicensed'',
             comp_confidence = 70 / 100,
             comp_location = ''Referenced in model card''\<rparr>]
      else [])"

definition detect_evaluation_results :: "scraped_data \<Rightarrow> component list" where
  "detect_evaluation_results scraped =
     (if any_keyword [''evaluation'', ''benchmark'', ''performance'', ''results'']
           (py_lower (sd_model_card scraped))
      then [\<lparr>comp_name = ''Evaluation results'',
             comp_description = ''The results from evaluating the model'',
             comp_license = JStr ''unlicensed'',
             comp_confidence = 75 / 100,
             comp_location = ''Model card''\<rparr>]
      else [])"

definition detect_training_dataset :: "scraped_data \<Rightarrow> component list" where
  "detect_training_dataset scraped =
     (if any_keyword [''training data'', ''trained on'', ''dataset'']
           (py_lower (sd_model_card scraped))
      then [\<lparr>comp_name = ''Training dataset'',
             comp_description = ''The dataset used to train the model'',
             comp_license = JStr ''unlicensed'',
             comp_confidence = 50 / 100,
             comp_location = ''Referenced in model card''\<rparr>]
      else [])"

definition detect_components :: "scraped_data \<Rightarrow> component list" where
  "detect_components scraped =
     detect_parameters scraped
     @ detect_metadata scraped
     @ detect_architecture_code scraped
     @ detect_inference_code scraped
     @ detect_model_card scraped
     @ detect_technical_report scraped
     @ detect_research_paper scraped
     @ detect_evaluation_results scraped
     @ detect_training_dataset scraped"

subsection \<open>Repository detection: \<^verbatim>\<open>ModelScraper._detect_repository\<close>\<close>

text \<open>
  The class \<^verbatim>\<open>[^/\s"<>]\<close> of the pattern: \<^verbatim>\<open>\s\<close> matches, among the ASCII
  characters, the space, the characters 9 to 13 and the characters 28 to 31.
\<close>

definition is_space :: "char \<Rightarrow> bool" where
  "is_space c =
     (c \<in> set [CHR 0x09, CHR 0x0A, CHR 0x0B, CHR 0x0C, CHR 0x0D,
                CHR 0x1C, CHR 0x1D, CHR 0x1E, CHR 0x1F, CHR 0x20])"

definition url_char :: "char \<Rightarrow> bool" where
  "url_char c =
     (c \<noteq> CHR ''/'' \<and> \<not> is_space c \<and> c \<noteq> CHR 0x22 \<and> c \<noteq> CHR ''<'' \<and> c \<noteq> CHR ''>'')"

definition github_prefix :: string where
  "github_prefix = ''https://github.com/''"

text \<open>
  The match of \<^verbatim>\<open>https://github\.com/[^/\s"<>]+/[^/\s"<>]+\<close> at the start of a
  string, if there is one. Both segments are greedy; the first ends before a character
  outside the class, which has to be the slash, so no shorter first segment can match.
\<close>

definition match_github_at :: "string \<Rightarrow> string option" where
  "match_github_at s =
     (if prefix github_prefix s
      then (let r = drop (length github_prefix) s;
                seg1 = takeWhile url_char r
            in case dropWhile url_char r of
                 [] \<Rightarrow> None
               | c # r2 \<Rightarrow>
                   (let seg2 = takeWhile url_char r2
                    in if seg1 \<noteq> [] \<and> c = CHR ''/'' \<and> seg2 \<noteq> []
                       then Some (github_prefix @ seg1 @ ''/'' @ seg2)
                       else None))
      else None)"

text \<open>
  \<^verbatim>\<open>re.findall(github_pattern, model_card)\<close>: the matches from left to right, the
  search going on behind each match. After a match at the head of the string the number
  of characters still to skip is the length of the match less one.
\<close>

fun findall_github_from :: "nat \<Rightarrow> string \<Rightarrow> string list" where
  "findall_github_from skip [] = []"
| "findall_github_from (Suc skip) (c # cs) = findall_github_from skip cs"
| "findall_github_from 0 (c # cs) =
     (case match_github_at (c # cs) of
        None \<Rightarrow> findall_github_from 0 cs
      | Some m \<Rightarrow> m # findall_github_from (length m - 1) cs)"

definition findall_github :: "string \<Rightarrow> string list" where
  "findall_github model_card = findall_github_from 0 model_card"

text \<open>\<^verbatim>\<open>url.rstrip(')')\<close>.\<close>

definition rstrip_paren :: "string \<Rightarrow> string" where
  "rstrip_paren url = rev (dropWhile (\<lambda>c. c = CHR '')'') (rev url))"

text \<open>
  \<^verbatim>\<open>_check_repo_exists\<close> sends a request over the network; \<^verbatim>\<open>repo_exists\<close> says
  for each address whether that probe answers with status 200.
\<close>

definition detect_repository :: "(string \<Rightarrow> bool) \<Rightarrow> scraped_data \<Rightarrow> string \<times> rat" where
  "detect_repository repo_exists scraped =
     (let model_id = sd_model_id scraped;
          model_card = sd_model_card scraped;
          github_urls = findall_github model_card
      in if github_urls \<noteq> []
         then (let model_name = py_lower (last (py_split CHR ''/'' model_id))
               in case find (\<lambda>url. py_in model_name (py_lower url))
                         (map rstrip_paren github_urls) of
                    Some url \<Rightarrow> (url, 90 / 100)
                  | None \<Rightarrow>
                      (case github_urls of
                         [] \<Rightarrow> ([], 0)
                       | first # _ \<Rightarrow> (rstrip_paren first, 70 / 100)))
         else if repo_exists (''https://github.com/'' @ model_id)
         then (''https://github.com/'' @ model_id, 65 / 100)
         else if CHR ''/'' \<in> set model_id
         then (let org = takeWhile (\<lambda>c. c \<noteq> CHR ''/'') model_id;
                   name = drop (length org + 1) model_id;
                   base_names = [(case py_split CHR ''-'' name of [] \<Rightarrow> [] | x # _ \<Rightarrow> x),
                                 py_lower name,
                                 name]
               in case find (\<lambda>base_name.
                               repo_exists (''https://github.com/'' @ org @ ''/'' @ base_name))
                         base_names of
                    Some base_name \<Rightarrow>
                      (''https://github.com/'' @ org @ ''/'' @ base_name, 60 / 100)
                  | None \<Rightarrow> ([], 0))
         else ([], 0))"

subsection \<open>Metadata extraction: \<^verbatim>\<open>ModelScraper._extract_model_metadata\<close>\<close>

text \<open>\<^verbatim>\<open>s.title()\<close>: a letter that follows a letter is lower-cased, any other letter is
  upper-cased.\<close>

definition is_ascii_letter :: "char \<Rightarrow> bool" where
  "is_ascii_letter c = (c \<in> set ascii_upper \<or> c \<in> set ascii_lower)"

fun title_from :: "bool \<Rightarrow> string \<Rightarrow> string" where
  "title_from prev_cased [] = []"
| "title_from prev_cased (c # cs) =
     (if is_ascii_letter c
      then (if prev_cased then lower_char c else upper_char c) # title_from True cs
      else c # title_from False cs)"

definition py_title :: "string \<Rightarrow> string" where
  "py_title s = title_from False s"

definition extract_producer :: "string \<Rightarrow> string" where
  "extract_producer model_id =
     (let producer = (if CHR ''/'' \<in> set model_id
                      then (case py_split CHR ''/'' model_id of [] \<Rightarrow> [] | x # _ \<Rightarrow> x)
                      else ''Unknown'')
      in py_title (replace_char CHR ''_'' CHR '' '' (replace_char CHR ''-'' CHR '' '' producer)))"

definition extract_model_name :: "string \<Rightarrow> string" where
  "extract_model_name model_id =
     (if CHR ''/'' \<in> set model_id then last (py_split CHR ''/'' model_id) else model_id)"

definition type_mapping :: "(string \<times> string) list" where
  "type_mapping =
     [(''text-generation'', ''language''),
      (''text2text-generation'', ''language''),
      (''image-to-text'', ''multimodal''),
      (''text-to-image'', ''image''),
      (''image-classification'', ''vision''),
      (''object-detection'', ''vision''),
      (''automatic-speech-recognition'', ''audio'')]"

text \<open>The loop \<^verbatim>\<open>for tag in tags: if tag in type_mapping: ...; break\<close>.\<close>

fun first_mapped_type :: "string list \<Rightarrow> string \<Rightarrow> string" where
  "first_mapped_type [] model_type = model_type"
| "first_mapped_type (tag # tags) model_type =
     (case map_of type_mapping tag of
        Some t \<Rightarrow> t
      | None \<Rightarrow> first_mapped_type tags model_type)"

text \<open>
  \<^verbatim>\<open>repr\<close> of a string: in single quotes, or in double quotes when the string holds a
  single quote and no double quote; the backslash, the quote in use and the control
  characters are escaped.
\<close>

definition hex_digit :: "nat \<Rightarrow> char" where
  "hex_digit n = ''0123456789abcdef'' ! n"

definition repr_char :: "char \<Rightarrow> char \<Rightarrow> string" where
  "repr_char q c =
     (if c = CHR 0x5C then [CHR 0x5C, CHR 0x5C]
      else if c = q then [CHR 0x5C, q]
      else if c = CHR 0x09 then [CHR 0x5C, CHR ''t'']
      else if c = CHR 0x0A then [CHR 0x5C, CHR ''n'']
      else if c = CHR 0x0D then [CHR 0x5C, CHR ''r'']
      else if (of_char c :: nat) < 32 \<or> (of_char c :: nat) = 127
      then [CHR 0x5C, CHR ''x'', hex_digit ((of_char c :: nat) div 16),
            hex_digit ((of_char c :: nat) mod 16)]
      else [c])"

definition py_repr_str :: "string \<Rightarrow> string" where
  "py_repr_str s =
     (let q = (if CHR 0x27 \<in> set s \<and> CHR 0x22 \<notin> set s then CHR 0x22 else CHR 0x27)
      in q # concat (map (repr_char q) s) @ [q])"

text \<open>\<^verbatim>\<open>str(tags)\<close> for a list of strings.\<close>

definition py_str_list :: "string list \<Rightarrow> string" where
  "py_str_list xs = ''['' @ py_join '', '' (map py_repr_str xs) @ '']''"

text \<open>
  The architecture block of \<^verbatim>\<open>_extract_model_metadata\<close>; \<^verbatim>\<open>model_card\<close> is the
  description as scraped and \<^verbatim>\<open>tags\<close> is \<^verbatim>\<open>model_info.get('tags', [])\<close>.
\<close>

definition detect_architecture :: "string \<Rightarrow> string list \<Rightarrow> string" where
  "detect_architecture model_card_text tags =
     (let model_card = py_lower model_card_text;
          tags_text = py_lower (py_str_list tags)
      in if py_in ''transformer'' model_card \<or> py_in ''transformer'' tags_text
         then (if py_in ''decoder'' model_card then ''transformer decoder''
               else if py_in ''encoder'' model_card then ''transformer encoder-decoder''
               else ''transformer'')
         else if py_in ''diffusion'' model_card \<or> py_in ''diffusion'' tags_text
         then ''diffusion''
         else [])"

text \<open>
  \<^verbatim>\<open>re.search(r'(\d+\.?\d*[BMK]?)', model_name)\<close>: the match starts at the first digit
  and takes the digits, one dot if it follows, the digits after it, and one of the
  letters B, M, K if it follows. Every part after the first digits may be empty, so
  the greedy match needs no backtracking.
\<close>

definition is_digit :: "char \<Rightarrow> bool" where
  "is_digit c = (c \<in> set ''0123456789'')"

definition version_match :: "string \<Rightarrow> string option" where
  "version_match s =
     (let rest = dropWhile (\<lambda>c. \<not> is_digit c) s
      in if rest = [] then None
         else (let d1 = takeWhile is_digit rest;
                   r1 = dropWhile is_digit rest;
                   dot = (case r1 of [] \<Rightarrow> [] | c # _ \<Rightarrow> if c = CHR ''.'' then [c] else []);
                   r2 = drop (length dot) r1;
                   d2 = takeWhile is_digit r2;
                   r3 = dropWhile is_digit r2;
                   unit = (case r3 of [] \<Rightarrow> [] | c # _ \<Rightarrow> if c \<in> set ''BMK'' then [c] else [])
               in Some (d1 @ dot @ d2 @ unit)))"

text \<open>
  The dictionary \<^verbatim>\<open>metadata\<close>. The keys \<^verbatim>\<open>repository\<close> and
  \<^verbatim>\<open>repository_confidence\<close> are set together, and only when a repository was found.
\<close>

record metadata =
  md_name :: string
  md_version :: string
  md_producer :: string
  md_type :: string
  md_architecture :: string
  md_date :: string
  md_origin :: string
  md_huggingface :: string
  md_repository :: "string option"
  md_repository_confidence :: "rat option"

text \<open>
  Two results of effects enter as arguments: \<^verbatim>\<open>today\<close> is
  \<^verbatim>\<open>datetime.now().strftime('%Y-%m-%d')\<close>, and \<^verbatim>\<open>detected\<close> is the pair that
  \<^verbatim>\<open>_detect_repository\<close> returns (a scan of the description for repository links,
  then existence probes of guessed addresses over the network; \<open>detect_repository\<close>
  above computes it from the outcomes of the probes).
\<close>

definition extract_model_metadata ::
  "scraped_data \<Rightarrow> string \<Rightarrow> string \<times> rat \<Rightarrow> metadata" where
  "extract_model_metadata scraped today detected =
     (let model_info = sd_model_info scraped;
          model_id = sd_model_id scraped;
          producer = extract_producer model_id;
          model_name = extract_model_name model_id;
          tags = (case mi_tags model_info of Some ts \<Rightarrow> ts | None \<Rightarrow> []);
          model_type = first_mapped_type tags [];
          architecture = detect_architecture (sd_model_card scraped) tags;
          version = (case version_match model_name of Some v \<Rightarrow> v | None \<Rightarrow> ''1.0'');
          last_modified = (case mi_lastModified model_info of Some t \<Rightarrow> t | None \<Rightarrow> []);
          date = (if last_modified \<noteq> []
                  then (case py_split CHR ''T'' last_modified of [] \<Rightarrow> [] | x # _ \<Rightarrow> x)
                  else today);
          repository = fst detected;
          repo_confidence = snd detected
      in \<lparr>md_name = model_name,
          md_version = version,
          md_producer = producer,
          md_type = model_type,
          md_architecture = architecture,
          md_date = date,
          md_origin = py_lower model_name,
          md_huggingface = ''https://huggingface.co/'' @ model_id,
          md_repository = (if repository \<noteq> [] then Some repository else None),
          md_repository_confidence = (if repository \<noteq> [] then Some repo_confidence else None)\<rparr>)"

subsection \<open>Draft serializer: \<^verbatim>\<open>ModelScraper._format_yaml_mot_style\<close>\<close>

text \<open>
  What an f-string makes of a loosely typed value: a string stands for itself, any
  other value is shown as \<^verbatim>\<open>str\<close> shows it.
\<close>

definition py_str_int :: "int \<Rightarrow> string" where
  "py_str_int i = (if i < 0 then CHR ''-'' # digits (nat (- i)) else digits (nat i))"

fun py_repr :: "json \<Rightarrow> string" where
  "py_repr JNull = ''None''"
| "py_repr (JBool b) = (if b then ''True'' else ''False'')"
| "py_repr (JInt i) = py_str_int i"
| "py_repr (JStr s) = py_repr_str s"
| "py_repr (JArr xs) = ''['' @ py_join '', '' (map py_repr xs) @ '']''"
| "py_repr (JObj kvs) =
     ''{'' @ py_join '', '' (map (\<lambda>kv. py_repr_str (fst kv) @ '': '' @ py_repr (snd kv)) kvs)
     @ ''}''"

definition py_str :: "json \<Rightarrow> string" where
  "py_str v = (case v of JStr s \<Rightarrow> s | _ \<Rightarrow> py_repr v)"

definition squote :: "string \<Rightarrow> string" where
  "squote s = CHR 0x27 # s @ [CHR 0x27]"

definition dquote :: "string \<Rightarrow> string" where
  "dquote s = CHR 0x22 # s @ [CHR 0x22]"

text \<open>The licence line of a component block.\<close>

definition license_line :: "json \<Rightarrow> string" where
  "license_line lic =
     (let license_val =
            (case lic of
               JArr xs \<Rightarrow> (case xs of [] \<Rightarrow> JStr ''unlicensed'' | x # _ \<Rightarrow> x)
             | _ \<Rightarrow> lic)
      in if truthy license_val \<and> license_val \<noteq> JStr ''unlicensed''
         then ''      license: '' @ squote (py_str license_val)
         else ''      license: unlicensed'')"

definition component_block :: "component \<Rightarrow> string list" where
  "component_block c =
     [''    -'',
      ''      name: '' @ squote (comp_name c),
      ''      description: '' @ dquote (comp_description c),
      license_line (comp_license c)]"

definition framework_lines :: "string list" where
  "framework_lines =
     [''framework:'',
      ''  name: '' @ squote ''Model Openness Framework'',
      ''  version: '' @ squote ''1.0'',
      ''  date: '' @ squote ''2024-12-15'']"

definition release_lines :: "metadata \<Rightarrow> string list" where
  "release_lines md =
     [''release:'',
      ''  name: '' @ md_name md,
      ''  version: '' @ squote (md_version md),
      ''  date: '' @ squote (md_date md),
      ''  license: {  }'',
      ''  type: '' @ squote (md_type md),
      ''  architecture: '' @ squote (md_architecture md),
      ''  origin: '' @ md_origin md,
      ''  producer: '' @ squote (md_producer md),
      ''  contact: '' @ squote []]
     @ (case md_repository md of
          None \<Rightarrow> []
        | Some r \<Rightarrow> if r \<noteq> [] then [''  repository: '' @ squote r] else [])
     @ (if md_huggingface md \<noteq> [] then [''  huggingface: '' @ squote (md_huggingface md)]
        else [])"

definition format_yaml_lines :: "metadata \<Rightarrow> component list \<Rightarrow> string list" where
  "format_yaml_lines md components =
     framework_lines
     @ release_lines md
     @ [''  components:'']
     @ concat (map component_block components)"

definition format_yaml_mot_style :: "metadata \<Rightarrow> component list \<Rightarrow> string" where
  "format_yaml_mot_style md components = py_join [CHR 0x0A] (format_yaml_lines md components)"

subsection \<open>\<^verbatim>\<open>ModelScraper.generate_yaml\<close> and the command line\<close>

text \<open>The result is the text and, when a path is given and not empty, the file written.\<close>

definition generate_yaml ::
  "scraped_data \<Rightarrow> string \<Rightarrow> string \<times> rat \<Rightarrow> string option
     \<Rightarrow> string \<times> (string \<times> string) option" where
  "generate_yaml scraped today detected output_path =
     (let md = extract_model_metadata scraped today detected;
          components = detect_components scraped;
          yaml_output = format_yaml_mot_style md components
      in (yaml_output,
          (case output_path of
             None \<Rightarrow> None
           | Some path \<Rightarrow> if path \<noteq> [] then Some (path, yaml_output) else None)))"

text \<open>
  How a run of \<^verbatim>\<open>main\<close> ends: \<^verbatim>\<open>sys.exit(1)\<close> after a failed scrape, or the end of
  the function after the draft was written (exit status 0). The output path is
  \<^verbatim>\<open>Path(args.output_dir) / f"{model_name}.yml"\<close>, given by its directory and its
  file name.
\<close>

datatype cli_outcome = Exited nat | Wrote string string string

definition exit_status :: "cli_outcome \<Rightarrow> nat" where
  "exit_status outcome = (case outcome of Exited n \<Rightarrow> n | Wrote _ _ _ \<Rightarrow> 0)"

definition scraper_main ::
  "string \<Rightarrow> string \<Rightarrow> model_info option http_result \<Rightarrow> string http_result
     \<Rightarrow> string list option http_result \<Rightarrow> string \<Rightarrow> string \<times> rat \<Rightarrow> cli_outcome" where
  "scraper_main model_id output_dir info_response card_response files_response today detected =
     (case scrape_huggingface_model model_id info_response card_response files_response of
        None \<Rightarrow> Exited 1
      | Some scraped \<Rightarrow>
          (let model_name = last (py_split CHR ''/'' model_id);
               file_name = model_name @ ''.yml''
           in Wrote output_dir file_name
                (fst (generate_yaml scraped today detected (Some (output_dir @ ''/'' @ file_name))))))"

subsection \<open>Example inputs of the scraper\<close>

text \<open>Scraped data with given card front matter, description and file listing.\<close>

definition scraped_example ::
  "(string \<times> json) list option \<Rightarrow> string \<Rightarrow> string list \<Rightarrow> scraped_data" where
  "scraped_example card_data card_text files =
     \<lparr>sd_model_id = ''org/model'',
      sd_model_info = \<lparr>mi_tags = None, mi_lastModified = None, mi_cardData = card_data\<rparr>,
      sd_model_card = card_text,
      sd_repo_files = files\<rparr>"

text \<open>A model-info object with a tag list only.\<close>

definition info_example :: model_info where
  "info_example = \<lparr>mi_tags = Some [''text-generation''], mi_lastModified = None, mi_cardData = None\<rparr>"

text \<open>
  Scraped data of a model whose description links a repository, and the probe outcome
  in which no guessed address exists.
\<close>

definition scraped_llama :: scraped_data where
  "scraped_llama =
     \<lparr>sd_model_id = ''meta-llama/Llama-3-8B'',
      sd_model_info = \<lparr>mi_tags = Some [''transformers'', ''text-generation''],
                       mi_lastModified = Some ''2024-04-18T12:00:00.000Z'',
                       mi_cardData = Some [(''license'', JStr ''llama3'')]\<rparr>,
      sd_model_card =
        ''A Transformer decoder. See the paper. Code: https://github.com/meta-llama/llama3'',
      sd_repo_files = [''model.safetensors'', ''config.json'']\<rparr>"

definition no_repo_exists :: "string \<Rightarrow> bool" where
  "no_repo_exists url = False"

definition metadata_llama :: metadata where
  "metadata_llama =
     extract_model_metadata scraped_llama ''2026-01-01''
       (detect_repository no_repo_exists scraped_llama)"




section \<open>Verified properties\<close>

subsection \<open>The registry mapping\<close>

text \<open>
  The loaded mapping has no key twice, so its length as a list of items is the
  \<^verbatim>\<open>len\<close> of the dictionary.
\<close>

lemma keys_dict_set:
  "fst ` set (dict_set d k v) = insert k (fst ` set d)"
  by (induction d k v rule: dict_set.induct) auto

lemma dict_set_distinct:
  "distinct (map fst d) \<Longrightarrow> distinct (map fst (dict_set d k v))"
proof (induction d k v rule: dict_set.induct)
  case (1 k v)
  then show ?case by simp
next
  case (2 k' v' d k v)
  show ?case
  proof (cases "k' = k")
    case True
    then show ?thesis using 2 by simp
  next
    case False
    have "k' \<notin> fst ` set (dict_set d k v)"
      using 2(2) False unfolding keys_dict_set by auto
    then show ?thesis using 2 False by simp
  qed
qed

lemma load_files_distinct:
  "distinct (map fst acc) \<Longrightarrow> distinct (map fst (load_files files acc))"
  by (induction files acc rule: load_files.induct) (auto simp: dict_set_distinct split: sum.splits)

lemma get_mot_models_distinct: "distinct (map fst (get_mot_models models_dir))"
  by (simp add: get_mot_models_def load_files_distinct split: option.splits)

subsection \<open>The identifier matcher\<close>

lemma py_split_nonempty: "py_split sep s \<noteq> []"
  by (induction s) (auto split: list.splits)

lemma py_split_no_sep: "sep \<notin> set s \<Longrightarrow> py_split sep s = [s]"
  by (induction s) auto

lemma py_split_append: "py_split sep (a @ sep # b) = py_split sep a @ py_split sep b"
  by (induction a) (auto simp: py_split_nonempty split: list.splits)

lemma last_py_split: "sep \<notin> set name \<Longrightarrow> last (py_split sep (org @ sep # name)) = name"
  by (simp add: py_split_append py_split_no_sep)

text \<open>
  Claim C2. For an identifier \<open>org/name\<close> (the trailing segment \<open>name\<close> is what
  follows the last separator, so it holds no separator itself), the set returned by
  \<^verbatim>\<open>normalize_model_id\<close> contains the lower-cased full string, the lower-cased
  trailing segment, and the two hyphen/underscore replacements of each.
\<close>

theorem normalize_variants:
  assumes "CHR ''/'' \<notin> set name"
  shows "{py_lower (org @ ''/'' @ name),
          py_lower name,
          replace_char CHR ''-'' CHR ''_'' (py_lower (org @ ''/'' @ name)),
          replace_char CHR ''_'' CHR ''-'' (py_lower (org @ ''/'' @ name)),
          replace_char CHR ''-'' CHR ''_'' (py_lower name),
          replace_char CHR ''_'' CHR ''-'' (py_lower name)}
         \<subseteq> normalize_model_id (org @ ''/'' @ name)"
  using last_py_split[OF assms, of org]
  by (simp add: normalize_model_id_def Let_def)

theorem normalize_variants_witness:
  "CHR ''/'' \<notin> set ''Llama_3-8B'' \<and>
   {''meta-llama/llama_3-8b'', ''llama_3-8b'', ''meta_llama/llama_3_8b'', ''meta-llama/llama-3-8b'',
    ''llama_3_8b'', ''llama-3-8b''} \<subseteq> normalize_model_id ''meta-llama/Llama_3-8B''"
proof -
  have h: "CHR ''/'' \<notin> set ''Llama_3-8B''" by simp
  have e1: "py_lower (''meta-llama'' @ ''/'' @ ''Llama_3-8B'') = ''meta-llama/llama_3-8b''"
    by (simp add: py_lower_def lower_char_def ascii_upper_def ascii_lower_def)
  have e2: "py_lower ''Llama_3-8B'' = ''llama_3-8b''"
    by (simp add: py_lower_def lower_char_def ascii_upper_def ascii_lower_def)
  show ?thesis
    using normalize_variants[OF h, of "''meta-llama''"] h
    unfolding e1 e2 by (simp add: replace_char_def)
qed

lemma match_loop_append:
  "\<forall>(j, Q) \<in> set pre. V \<inter> mot_identifiers Q = {} \<Longrightarrow>
   match_loop V (pre @ rest) = match_loop V rest"
  by (induction pre) auto

lemma match_loop_first:
  assumes "(k, R) \<in> set reg" and "V \<inter> mot_identifiers R \<noteq> {}"
  shows "\<exists>pre k' R' post. reg = pre @ (k', R') # post
           \<and> (\<forall>(j, Q) \<in> set pre. V \<inter> mot_identifiers Q = {})
           \<and> V \<inter> mot_identifiers R' \<noteq> {}
           \<and> match_loop V reg = (True, mot_file R')"
  using assms
proof (induction reg)
  case Nil
  then show ?case by simp
next
  case (Cons e reg)
  obtain k0 R0 where e: "e = (k0, R0)" by (cases e)
  show ?case
  proof (cases "V \<inter> mot_identifiers R0 \<noteq> {}")
    case True
    have "e # reg = [] @ (k0, R0) # reg" using e by simp
    moreover have "\<forall>(j, Q) \<in> set []. V \<inter> mot_identifiers Q = {}" by simp
    moreover have "match_loop V (e # reg) = (True, mot_file R0)" using True e by simp
    ultimately show ?thesis using True by blast
  next
    case False
    with Cons.prems e have "(k, R) \<in> set reg" by auto
    from Cons.IH[OF this Cons.prems(2)]
    obtain pre k' R' post where h: "reg = pre @ (k', R') # post"
      "\<forall>(j, Q) \<in> set pre. V \<inter> mot_identifiers Q = {}"
      "V \<inter> mot_identifiers R' \<noteq> {}"
      "match_loop V reg = (True, mot_file R')" by blast
    have "e # reg = (e # pre) @ (k', R') # post" using h(1) by simp
    moreover have "\<forall>(j, Q) \<in> set (e # pre). V \<inter> mot_identifiers Q = {}"
      using h(2) False e by simp
    moreover have "match_loop V (e # reg) = (True, mot_file R')" using h(4) False e by simp
    ultimately show ?thesis using h(3) by blast
  qed
qed


text \<open>
  Claim C1, as amended. When the variant set of the remote identifier \<open>I\<close> meets the
  identifier set of a record \<open>R\<close> of the mapping, \<^verbatim>\<open>is_model_in_mot\<close> reports the
  model as present and names the source file of the first record, in the iteration order
  of the mapping, whose identifier set meets the variant set. That file is the file of
  \<open>R\<close> when no record before \<open>R\<close> meets the variant set.
\<close>

theorem is_model_in_mot_first_match:
  assumes "hf_id hf = Some I"
    and "mot_models = before @ (k, R) # after"
    and "normalize_model_id I \<inter> mot_identifiers R \<noteq> {}"
  shows "fst (is_model_in_mot hf mot_models) = True
       \<and> (\<exists>pre k' R' post. mot_models = pre @ (k', R') # post
             \<and> (\<forall>(j, Q) \<in> set pre. normalize_model_id I \<inter> mot_identifiers Q = {})
             \<and> normalize_model_id I \<inter> mot_identifiers R' \<noteq> {}
             \<and> is_model_in_mot hf mot_models = (True, mot_file R'))
       \<and> ((\<forall>(j, Q) \<in> set before. normalize_model_id I \<inter> mot_identifiers Q = {})
            \<longrightarrow> is_model_in_mot hf mot_models = (True, mot_file R))"
proof -
  define V where "V = normalize_model_id I"
  have mem: "(k, R) \<in> set mot_models" using assms(2) by simp
  have eq: "is_model_in_mot hf mot_models = match_loop V mot_models"
    using assms(1) by (simp add: is_model_in_mot_def V_def)
  have m: "V \<inter> mot_identifiers R \<noteq> {}" using assms(3) by (simp add: V_def)
  from match_loop_first[OF mem m] obtain pre k' R' post where
    h: "mot_models = pre @ (k', R') # post"
       "\<forall>(j, Q) \<in> set pre. V \<inter> mot_identifiers Q = {}"
       "V \<inter> mot_identifiers R' \<noteq> {}"
       "match_loop V mot_models = (True, mot_file R')" by blast
  have a: "fst (is_model_in_mot hf mot_models) = True" using eq h(4) by simp
  have r: "is_model_in_mot hf mot_models = (True, mot_file R')" using eq h(4) by simp
  have b: "\<exists>pre k' R' post. mot_models = pre @ (k', R') # post
             \<and> (\<forall>(j, Q) \<in> set pre. V \<inter> mot_identifiers Q = {})
             \<and> V \<inter> mot_identifiers R' \<noteq> {}
             \<and> is_model_in_mot hf mot_models = (True, mot_file R')"
    using h(1) h(2) h(3) r by (intro exI conjI)
  have c: "(\<forall>(j, Q) \<in> set before. V \<inter> mot_identifiers Q = {})
            \<longrightarrow> is_model_in_mot hf mot_models = (True, mot_file R)"
  proof
    assume n: "\<forall>(j, Q) \<in> set before. V \<inter> mot_identifiers Q = {}"
    have "match_loop V mot_models = match_loop V ((k, R) # after)"
      unfolding assms(2) by (rule match_loop_append[OF n])
    also have "\<dots> = (True, mot_file R)" using m by simp
    finally show "is_model_in_mot hf mot_models = (True, mot_file R)" using eq by simp
  qed
  show ?thesis using a b c unfolding V_def by (intro conjI)
qed

lemmas str_eval = py_lower_def lower_char_def upper_char_def py_upper_def ascii_upper_def ascii_lower_def replace_char_def

lemmas loader_eval = get_mot_models_def load_record_def release_get_def name_identifiers_def
  origin_identifiers_def huggingface_identifiers_def path_stem_def registry_doc_def Let_def

lemma get_mot_models_one: "get_mot_models (Some [(''Llama-2-7B.yml'', Some (registry_doc ''Llama-2-7B''))])
   = [(''Llama-2-7B'', \<lparr>mot_name = JStr ''Llama-2-7B'', mot_origin = JStr [], mot_huggingface = JStr [],
        mot_identifiers = {''llama-2-7b'', ''llama_2_7b'', ''llama-2-7b''}, mot_file = ''Llama-2-7B.yml''\<rparr>)]"
  by (simp add: loader_eval str_eval)

lemma llama2_variant: "''llama-2-7b'' \<in> normalize_model_id ''meta-llama/Llama-2-7B''"
  by (simp add: normalize_model_id_def str_eval)

lemma get_mot_models_two: "get_mot_models (Some [(''a.yml'', Some (registry_doc ''Llama-2-7B'')),
                                   (''b.yml'', Some (registry_doc ''llama_2_7b''))])
   = [(''a'', \<lparr>mot_name = JStr ''Llama-2-7B'', mot_origin = JStr [], mot_huggingface = JStr [],
        mot_identifiers = {''llama-2-7b'', ''llama_2_7b'', ''llama-2-7b''}, mot_file = ''a.yml''\<rparr>),
      (''b'', \<lparr>mot_name = JStr ''llama_2_7b'', mot_origin = JStr [], mot_huggingface = JStr [],
        mot_identifiers = {''llama_2_7b'', ''llama_2_7b'', ''llama-2-7b''}, mot_file = ''b.yml''\<rparr>)]"
  by (simp add: loader_eval str_eval)

lemma llama2_meets_first: "normalize_model_id ''meta-llama/Llama-2-7B'' \<inter> {''llama-2-7b'', ''llama_2_7b'', ''llama-2-7b''} \<noteq> {}"
  using llama2_variant by blast

lemma llama2_meets_second: "normalize_model_id ''meta-llama/Llama-2-7B'' \<inter> {''llama_2_7b'', ''llama_2_7b'', ''llama-2-7b''} \<noteq> {}"
  using llama2_variant by blast


theorem is_model_in_mot_first_match_witness:
  "hf_id (remote ''meta-llama/Llama-2-7B'') = Some ''meta-llama/Llama-2-7B''
   \<and> get_mot_models (Some [(''Llama-2-7B.yml'', Some (registry_doc ''Llama-2-7B''))])
       = [] @ (''Llama-2-7B'', \<lparr>mot_name = JStr ''Llama-2-7B'', mot_origin = JStr [],
                  mot_huggingface = JStr [],
                  mot_identifiers = {''llama-2-7b'', ''llama_2_7b'', ''llama-2-7b''},
                  mot_file = ''Llama-2-7B.yml''\<rparr>) # []
   \<and> normalize_model_id ''meta-llama/Llama-2-7B''
         \<inter> {''llama-2-7b'', ''llama_2_7b'', ''llama-2-7b''} \<noteq> {}
   \<and> is_model_in_mot (remote ''meta-llama/Llama-2-7B'')
         (get_mot_models (Some [(''Llama-2-7B.yml'', Some (registry_doc ''Llama-2-7B''))]))
       = (True, ''Llama-2-7B.yml'')"
proof -
  define R where "R = \<lparr>mot_name = JStr ''Llama-2-7B'', mot_origin = JStr [],
                  mot_huggingface = JStr [],
                  mot_identifiers = {''llama-2-7b'', ''llama_2_7b'', ''llama-2-7b''},
                  mot_file = ''Llama-2-7B.yml''\<rparr>"
  define reg where "reg = get_mot_models (Some [(''Llama-2-7B.yml'', Some (registry_doc ''Llama-2-7B''))])"
  have h1: "hf_id (remote ''meta-llama/Llama-2-7B'') = Some ''meta-llama/Llama-2-7B''"
    by (simp add: remote_def)
  have h2: "reg = [] @ (''Llama-2-7B'', R) # []" unfolding reg_def R_def get_mot_models_one by simp
  have h3: "normalize_model_id ''meta-llama/Llama-2-7B'' \<inter> mot_identifiers R \<noteq> {}"
    using llama2_meets_first by (simp add: R_def)
  have f: "mot_file R = ''Llama-2-7B.yml''" by (simp add: R_def)
  have n: "\<forall>(j, Q) \<in> set []. normalize_model_id ''meta-llama/Llama-2-7B'' \<inter> mot_identifiers Q = {}"
    by simp
  from is_model_in_mot_first_match[OF h1 h2 h3] n
  have "is_model_in_mot (remote ''meta-llama/Llama-2-7B'') reg = (True, mot_file R)" by blast
  then have r: "is_model_in_mot (remote ''meta-llama/Llama-2-7B'') reg = (True, ''Llama-2-7B.yml'')"
    using f by simp
  show ?thesis using h1 h2 llama2_meets_first r unfolding reg_def R_def by (intro conjI)
qed

text \<open>
  The claim as first stated fails: two registry files whose names normalise to the same
  identifiers both meet the variant set of \<^verbatim>\<open>meta-llama/Llama-2-7B\<close>; the record of
  \<^verbatim>\<open>b.yml\<close> is in the loaded mapping and meets the variant set, yet the file reported
  is \<^verbatim>\<open>a.yml\<close>.
\<close>

theorem is_model_in_mot_counterexample:
  "(''b'', \<lparr>mot_name = JStr ''llama_2_7b'', mot_origin = JStr [], mot_huggingface = JStr [],
        mot_identifiers = {''llama_2_7b'', ''llama_2_7b'', ''llama-2-7b''}, mot_file = ''b.yml''\<rparr>)
     \<in> set (get_mot_models (Some [(''a.yml'', Some (registry_doc ''Llama-2-7B'')),
                                   (''b.yml'', Some (registry_doc ''llama_2_7b''))]))
   \<and> normalize_model_id ''meta-llama/Llama-2-7B''
        \<inter> {''llama_2_7b'', ''llama_2_7b'', ''llama-2-7b''} \<noteq> {}
   \<and> is_model_in_mot (remote ''meta-llama/Llama-2-7B'')
        (get_mot_models (Some [(''a.yml'', Some (registry_doc ''Llama-2-7B'')),
                               (''b.yml'', Some (registry_doc ''llama_2_7b''))]))
       = (True, ''a.yml'')
   \<and> ''a.yml'' \<noteq> ''b.yml''"
proof -
  have m: "is_model_in_mot (remote ''meta-llama/Llama-2-7B'')
        (get_mot_models (Some [(''a.yml'', Some (registry_doc ''Llama-2-7B'')),
                               (''b.yml'', Some (registry_doc ''llama_2_7b''))]))
       = (True, ''a.yml'')"
    unfolding get_mot_models_two using llama2_meets_first by (simp add: is_model_in_mot_def remote_def)
  have i: "(''b'', \<lparr>mot_name = JStr ''llama_2_7b'', mot_origin = JStr [], mot_huggingface = JStr [],
        mot_identifiers = {''llama_2_7b'', ''llama_2_7b'', ''llama-2-7b''}, mot_file = ''b.yml''\<rparr>)
     \<in> set (get_mot_models (Some [(''a.yml'', Some (registry_doc ''Llama-2-7B'')),
                                   (''b.yml'', Some (registry_doc ''llama_2_7b''))]))"
    unfolding get_mot_models_two by simp
  have d: "''a.yml'' \<noteq> ''b.yml''" by simp
  show ?thesis using i llama2_meets_second m d by (intro conjI)
qed

subsection \<open>Priority and type buckets\<close>

lemma categorize_snoc:
  "categorize_missing_models (ms @ [m]) = categorize_step (categorize_missing_models ms) m"
  by (simp add: categorize_missing_models_def)

lemma categorize_nil: "categorize_missing_models [] = empty_categories"
  by (simp add: categorize_missing_models_def)

lemma high_priority_filter:
  "high_priority (categorize_missing_models ms) = filter (\<lambda>m. 100000 \<le> get_downloads m) ms"
  by (induction ms rule: rev_induct)
     (simp_all add: categorize_snoc categorize_nil empty_categories_def categorize_step_def Let_def)

lemma medium_priority_filter:
  "medium_priority (categorize_missing_models ms)
     = filter (\<lambda>m. 10000 \<le> get_downloads m \<and> get_downloads m < 100000) ms"
  by (induction ms rule: rev_induct)
     (simp_all add: categorize_snoc categorize_nil empty_categories_def categorize_step_def Let_def)

lemma low_priority_filter:
  "low_priority (categorize_missing_models ms) = filter (\<lambda>m. get_downloads m < 10000) ms"
  by (induction ms rule: rev_induct)
     (simp_all add: categorize_snoc categorize_nil empty_categories_def categorize_step_def Let_def)

lemma by_type_snoc:
  "by_type (categorize_missing_models (ms @ [m]))
     = dict_append (by_type (categorize_missing_models ms)) (model_type_of m) m"
  by (simp add: categorize_snoc categorize_step_def Let_def)

lemma map_of_dict_append:
  "map_of (dict_append d k v) t
     = (if t = k then Some ((case map_of d k of None \<Rightarrow> [] | Some vs \<Rightarrow> vs) @ [v])
        else map_of d t)"
  by (induction d k v rule: dict_append.induct) auto

lemma keys_dict_append:
  "map fst (dict_append d k v) = (if k \<in> set (map fst d) then map fst d else map fst d @ [k])"
  by (induction d k v rule: dict_append.induct) auto

lemma mset_dict_append:
  "mset (concat (map snd (dict_append d k v))) = mset (concat (map snd d)) + {#v#}"
  by (induction d k v rule: dict_append.induct) auto

lemma by_type_keys:
  "map fst (by_type (categorize_missing_models ms)) = rev (remdups (rev (map model_type_of ms)))"
proof (induction ms rule: rev_induct)
  case Nil
  then show ?case by (simp add: categorize_nil empty_categories_def)
next
  case (snoc m ms)
  have s: "set (map fst (by_type (categorize_missing_models ms))) = model_type_of ` set ms"
    using snoc.IH by simp
  show ?case
    unfolding by_type_snoc keys_dict_append s using snoc.IH by auto
qed

lemma by_type_lookup:
  "map_of (by_type (categorize_missing_models ms)) t
     = (if t \<in> model_type_of ` set ms then Some (filter (\<lambda>m. model_type_of m = t) ms) else None)"
proof (induction ms rule: rev_induct)
  case Nil
  then show ?case by (simp add: categorize_nil empty_categories_def)
next
  case (snoc m ms)
  show ?case
    unfolding by_type_snoc map_of_dict_append using snoc.IH
    by (auto simp: empty_filter_conv filter_empty_conv image_iff) force+
qed

lemma by_type_mset:
  "mset (concat (map snd (by_type (categorize_missing_models ms)))) = mset ms"
  by (induction ms rule: rev_induct)
     (simp_all add: by_type_snoc mset_dict_append categorize_nil empty_categories_def)

lemma three_way_mset:
  "mset (filter (\<lambda>m. (100000::int) \<le> f m) ms)
   + mset (filter (\<lambda>m. 10000 \<le> f m \<and> f m < 100000) ms)
   + mset (filter (\<lambda>m. f m < 10000) ms) = mset ms"
  by (induction ms) auto


text \<open>
  Claim C3. \<^verbatim>\<open>categorize_missing_models\<close> puts every model of the input in exactly one
  of the three priority lists, decided by the download count alone: the high list is the
  models with at least 100000 downloads, the medium list those with at least 10000 and
  fewer than 100000, the low list those with fewer than 10000, each in input order, and
  together they hold every occurrence of the input once. Every model is also in exactly
  one type list: the keys of \<^verbatim>\<open>by_type\<close> are the types of the models in order of first
  occurrence, and the list under a type is the models of that type. A count of exactly
  100000 goes to high, and exactly 10000 to medium.
\<close>

theorem categorize_partition:
  "high_priority (categorize_missing_models ms) = filter (\<lambda>m. 100000 \<le> get_downloads m) ms
   \<and> medium_priority (categorize_missing_models ms)
       = filter (\<lambda>m. 10000 \<le> get_downloads m \<and> get_downloads m < 100000) ms
   \<and> low_priority (categorize_missing_models ms) = filter (\<lambda>m. get_downloads m < 10000) ms
   \<and> mset (high_priority (categorize_missing_models ms))
       + mset (medium_priority (categorize_missing_models ms))
       + mset (low_priority (categorize_missing_models ms)) = mset ms
   \<and> map fst (by_type (categorize_missing_models ms))
       = rev (remdups (rev (map model_type_of ms)))
   \<and> (\<forall>t. map_of (by_type (categorize_missing_models ms)) t
            = (if t \<in> model_type_of ` set ms
               then Some (filter (\<lambda>m. model_type_of m = t) ms) else None))
   \<and> mset (concat (map snd (by_type (categorize_missing_models ms)))) = mset ms
   \<and> high_priority (categorize_missing_models [m\<lparr>hf_downloads := Some 100000\<rparr>])
       = [m\<lparr>hf_downloads := Some 100000\<rparr>]
   \<and> medium_priority (categorize_missing_models [m\<lparr>hf_downloads := Some 10000\<rparr>])
       = [m\<lparr>hf_downloads := Some 10000\<rparr>]"
proof -
  have p: "mset (high_priority (categorize_missing_models ms))
       + mset (medium_priority (categorize_missing_models ms))
       + mset (low_priority (categorize_missing_models ms)) = mset ms"
    unfolding high_priority_filter medium_priority_filter low_priority_filter
    by (rule three_way_mset)
  have l: "\<forall>t. map_of (by_type (categorize_missing_models ms)) t
            = (if t \<in> model_type_of ` set ms
               then Some (filter (\<lambda>m. model_type_of m = t) ms) else None)"
    using by_type_lookup by blast
  have b1: "high_priority (categorize_missing_models [m\<lparr>hf_downloads := Some 100000\<rparr>])
       = [m\<lparr>hf_downloads := Some 100000\<rparr>]"
    unfolding high_priority_filter by (simp add: get_downloads_def)
  have b2: "medium_priority (categorize_missing_models [m\<lparr>hf_downloads := Some 10000\<rparr>])
       = [m\<lparr>hf_downloads := Some 10000\<rparr>]"
    unfolding medium_priority_filter by (simp add: get_downloads_def)
  show ?thesis
    using high_priority_filter[of ms] medium_priority_filter[of ms] low_priority_filter[of ms]
      p by_type_keys[of ms] l by_type_mset[of ms] b1 b2
    by (intro conjI)
qed

theorem categorize_partition_witness:
  "high_priority (categorize_missing_models
      [listed ''a/x'' 500000 [''pytorch'', ''text-generation''], listed ''b/y'' 50000 [],
       listed ''c/z'' 5000 [''text-to-image'', ''text-generation''], listed ''d/u'' 100000 [''text-generation''],
       listed ''e/v'' 10000 []])
     = [listed ''a/x'' 500000 [''pytorch'', ''text-generation''], listed ''d/u'' 100000 [''text-generation'']]
   \<and> medium_priority (categorize_missing_models
      [listed ''a/x'' 500000 [''pytorch'', ''text-generation''], listed ''b/y'' 50000 [],
       listed ''c/z'' 5000 [''text-to-image'', ''text-generation''], listed ''d/u'' 100000 [''text-generation''],
       listed ''e/v'' 10000 []])
     = [listed ''b/y'' 50000 [], listed ''e/v'' 10000 []]
   \<and> low_priority (categorize_missing_models
      [listed ''a/x'' 500000 [''pytorch'', ''text-generation''], listed ''b/y'' 50000 [],
       listed ''c/z'' 5000 [''text-to-image'', ''text-generation''], listed ''d/u'' 100000 [''text-generation''],
       listed ''e/v'' 10000 []])
     = [listed ''c/z'' 5000 [''text-to-image'', ''text-generation'']]
   \<and> map fst (by_type (categorize_missing_models
      [listed ''a/x'' 500000 [''pytorch'', ''text-generation''], listed ''b/y'' 50000 [],
       listed ''c/z'' 5000 [''text-to-image'', ''text-generation''], listed ''d/u'' 100000 [''text-generation''],
       listed ''e/v'' 10000 []]))
     = [''text-generation'', ''other'', ''text-to-image'']"
proof -
  define ms where "ms = [listed ''a/x'' 500000 [''pytorch'', ''text-generation''], listed ''b/y'' 50000 [],
       listed ''c/z'' 5000 [''text-to-image'', ''text-generation''], listed ''d/u'' 100000 [''text-generation''],
       listed ''e/v'' 10000 []]"
  have t: "map model_type_of ms
     = [''text-generation'', ''other'', ''text-to-image'', ''text-generation'', ''other'']"
    by (simp add: ms_def listed_def model_type_of_def get_tags_def type_tags_def)
  note w = categorize_partition[of ms "listed ''d/u'' 0 []"]
  have h: "high_priority (categorize_missing_models ms)
     = [listed ''a/x'' 500000 [''pytorch'', ''text-generation''], listed ''d/u'' 100000 [''text-generation'']]"
    using w by (simp add: ms_def listed_def get_downloads_def)
  have m: "medium_priority (categorize_missing_models ms)
     = [listed ''b/y'' 50000 [], listed ''e/v'' 10000 []]"
    using w by (simp add: ms_def listed_def get_downloads_def)
  have l: "low_priority (categorize_missing_models ms)
     = [listed ''c/z'' 5000 [''text-to-image'', ''text-generation'']]"
    using w by (simp add: ms_def listed_def get_downloads_def)
  have k: "map fst (by_type (categorize_missing_models ms))
     = [''text-generation'', ''other'', ''text-to-image'']"
    using w unfolding t by simp
  show ?thesis using h m l k unfolding ms_def by (intro conjI)
qed

subsection \<open>The report\<close>

lemma py_sorted_desc_sorted:
  "sorted_wrt (\<lambda>a b. f a \<ge> f b) (py_sorted_desc f xs)"
proof -
  have "sorted (map (\<lambda>x. - f x) (sort_key (\<lambda>x. - f x) xs))" by (rule sorted_sort_key)
  then have "sorted_wrt (\<lambda>a b. - f a \<le> - f b) (sort_key (\<lambda>x. - f x) xs)"
    by (simp add: sorted_map)
  then show ?thesis by (simp add: py_sorted_desc_def)
qed

lemma py_sorted_desc_mset: "mset (py_sorted_desc f xs) = mset xs"
  by (simp add: py_sorted_desc_def)

lemma py_sorted_desc_stable:
  "filter (\<lambda>x. f x = k) (py_sorted_desc f xs) = filter (\<lambda>x. f x = k) xs"
proof -
  have "filter (\<lambda>x. - f x = - k) (sort_key (\<lambda>x. - f x) xs) = filter (\<lambda>x. - f x = - k) xs"
    by (rule sort_key_stable)
  then show ?thesis by (simp add: py_sorted_desc_def)
qed

lemma py_sorted_desc_Nil: "py_sorted_desc f xs = [] \<longleftrightarrow> xs = []"
  using py_sorted_desc_mset[of f xs] by (metis mset_zero_iff)

lemma py_sorted_desc_length: "length (py_sorted_desc f xs) = length xs"
  by (simp add: py_sorted_desc_def)

lemma assoc_list_by_keys:
  "distinct (map fst d) \<Longrightarrow> d = map (\<lambda>k. (k, the (map_of d k))) (map fst d)"
proof -
  assume dist: "distinct (map fst d)"
  have "map (\<lambda>k. (k, the (map_of d k))) (map fst d) = map (\<lambda>p. (fst p, the (map_of d (fst p)))) d"
    by (simp add: comp_def)
  also have "\<dots> = map (\<lambda>p. p) d"
  proof (rule map_cong[OF refl])
    fix p assume "p \<in> set d"
    then have "(fst p, snd p) \<in> set d" by simp
    then have "map_of d (fst p) = Some (snd p)"
      by (rule map_of_is_SomeI[OF dist])
    then show "(fst p, the (map_of d (fst p))) = p" by simp
  qed
  finally show ?thesis by simp
qed

lemma by_type_table:
  "by_type (categorize_missing_models ms)
     = map (\<lambda>t. (t, filter (\<lambda>m. model_type_of m = t) ms))
         (rev (remdups (rev (map model_type_of ms))))"
proof -
  let ?d = "by_type (categorize_missing_models ms)"
  have keys: "map fst ?d = rev (remdups (rev (map model_type_of ms)))" by (rule by_type_keys)
  have dist: "distinct (map fst ?d)" unfolding keys by simp
  have "?d = map (\<lambda>k. (k, the (map_of ?d k))) (map fst ?d)"
    by (rule assoc_list_by_keys[OF dist])
  also have "\<dots> = map (\<lambda>t. (t, filter (\<lambda>m. model_type_of m = t) ms)) (map fst ?d)"
    by (rule map_cong[OF refl]) (auto simp: keys by_type_lookup)
  finally show ?thesis unfolding keys .
qed


text \<open>
  Claim C8. The text that \<^verbatim>\<open>generate_report\<close> returns is the lines below joined by
  line breaks, and nothing but the list of missing models and the number of records of
  the registry enters it: a run with another output destination, or with another
  registry of the same size, returns the same text. In that text the rows of the type
  section are the types with their models, in descending order of the counts, rows of
  equal count in the order of first occurrence of the type in the input; the
  high-priority listing is the first 50, and the medium-priority listing the first 20,
  of the models of the bucket in descending order of downloads, models of equal
  downloads in their order in the input; the commands are those of the first 10
  high-priority models in the same order.
\<close>

theorem generate_report_deterministic:
  "(\<exists>rows high medium.
      fst (generate_report ms reg out)
        = py_join [CHR 0x0A]
            ([rule_line CHR ''='',
              ''MODEL OPENNESS TOOL - MISSING MODELS REPORT'',
              rule_line CHR ''='',
              [],
              ''SUMMARY'',
              rule_line CHR ''-'',
              ''Models in MOT database:     '' @ fmt_commas (int (length reg)),
              ''Missing models found:       '' @ fmt_commas (int (length ms)),
              ''  - High priority (>100k):  '' @ fmt_commas (int (length high)),
              ''  - Medium priority (10k+): '' @ fmt_commas (int (length medium)),
              ''  - Low priority (<10k):    ''
                @ fmt_commas (int (length (filter (\<lambda>m. get_downloads m < 10000) ms))),
              [],
              ''MISSING MODELS BY TYPE'',
              rule_line CHR ''-'']
             @ map type_line rows
             @ [[]]
             @ (if high \<noteq> []
                then [''HIGH PRIORITY MODELS (>100,000 downloads)'', rule_line CHR ''-'']
                     @ concat (map high_entry (take 50 high))
                else [])
             @ (if medium \<noteq> []
                then [''MEDIUM PRIORITY MODELS (10,000-100,000 downloads)'',
                      rule_line CHR ''-'',
                      ''Total: '' @ digits (length medium) @ '' models'',
                      ''Top 20:'']
                     @ map medium_entry (take 20 medium)
                     @ [[]]
                else [])
             @ [''SUGGESTED SCRAPING COMMANDS'',
                rule_line CHR ''-'',
                ''High priority models (copy and run):'',
                []]
             @ map (\<lambda>m. ''python model_scraper.py '' @ get_id_or_unknown m) (take 10 high)
             @ [[], rule_line CHR ''=''])
      \<and> mset rows
          = mset (map (\<lambda>t. (t, filter (\<lambda>m. model_type_of m = t) ms))
                    (rev (remdups (rev (map model_type_of ms)))))
      \<and> sorted_wrt (\<lambda>a b. length (snd a) \<ge> length (snd b)) rows
      \<and> (\<forall>n. filter (\<lambda>r. length (snd r) = n) rows
               = filter (\<lambda>r. length (snd r) = n)
                   (map (\<lambda>t. (t, filter (\<lambda>m. model_type_of m = t) ms))
                      (rev (remdups (rev (map model_type_of ms))))))
      \<and> mset high = mset (filter (\<lambda>m. 100000 \<le> get_downloads m) ms)
      \<and> sorted_wrt (\<lambda>a b. get_downloads a \<ge> get_downloads b) high
      \<and> (\<forall>d. filter (\<lambda>m. get_downloads m = d) high
               = filter (\<lambda>m. get_downloads m = d \<and> 100000 \<le> get_downloads m) ms)
      \<and> mset medium
          = mset (filter (\<lambda>m. 10000 \<le> get_downloads m \<and> get_downloads m < 100000) ms)
      \<and> sorted_wrt (\<lambda>a b. get_downloads a \<ge> get_downloads b) medium
      \<and> (\<forall>d. filter (\<lambda>m. get_downloads m = d) medium
               = filter (\<lambda>m. get_downloads m = d
                              \<and> 10000 \<le> get_downloads m \<and> get_downloads m < 100000) ms))
   \<and> (\<forall>reg' out'. length reg' = length reg
          \<longrightarrow> fst (generate_report ms reg' out') = fst (generate_report ms reg out))"
proof -
  define c where "c = categorize_missing_models ms"
  define R where "R = py_sorted_desc (\<lambda>x. int (length (snd x))) (by_type c)"
  define H where "H = py_sorted_desc get_downloads (high_priority c)"
  define M where "M = py_sorted_desc get_downloads (medium_priority c)"
  define T where "T = map (\<lambda>t. (t, filter (\<lambda>m. model_type_of m = t) ms))
                        (rev (remdups (rev (map model_type_of ms))))"
  have bt: "by_type c = T" unfolding c_def T_def by (rule by_type_table)
  have hp: "high_priority c = filter (\<lambda>m. 100000 \<le> get_downloads m) ms"
    unfolding c_def by (rule high_priority_filter)
  have mp: "medium_priority c
      = filter (\<lambda>m. 10000 \<le> get_downloads m \<and> get_downloads m < 100000) ms"
    unfolding c_def by (rule medium_priority_filter)
  have lp: "low_priority c = filter (\<lambda>m. get_downloads m < 10000) ms"
    unfolding c_def by (rule low_priority_filter)
  have hn: "(high_priority c \<noteq> []) = (H \<noteq> [])" by (simp add: H_def py_sorted_desc_Nil)
  have mn: "(medium_priority c \<noteq> []) = (M \<noteq> [])" by (simp add: M_def py_sorted_desc_Nil)
  have hl: "length (high_priority c) = length H" by (simp add: H_def py_sorted_desc_length)
  have ml: "length (medium_priority c) = length M" by (simp add: M_def py_sorted_desc_length)
  have s1: "summary_section ms reg c
     = [rule_line CHR ''='',
        ''MODEL OPENNESS TOOL - MISSING MODELS REPORT'',
        rule_line CHR ''='',
        [],
        ''SUMMARY'',
        rule_line CHR ''-'',
        ''Models in MOT database:     '' @ fmt_commas (int (length reg)),
        ''Missing models found:       '' @ fmt_commas (int (length ms)),
        ''  - High priority (>100k):  '' @ fmt_commas (int (length H)),
        ''  - Medium priority (10k+): '' @ fmt_commas (int (length M)),
        ''  - Low priority (<10k):    ''
          @ fmt_commas (int (length (filter (\<lambda>m. get_downloads m < 10000) ms))),
        []]"
    by (simp add: summary_section_def hl ml lp)
  have s2: "by_type_section c
     = [''MISSING MODELS BY TYPE'', rule_line CHR ''-''] @ map type_line R @ [[]]"
    by (simp add: by_type_section_def type_rows_def R_def)
  have s3: "high_section c
     = (if H \<noteq> []
        then [''HIGH PRIORITY MODELS (>100,000 downloads)'', rule_line CHR ''-'']
             @ concat (map high_entry (take 50 H))
        else [])"
    by (simp add: high_section_def high_listing_def hn H_def)
  have s4: "medium_section c
     = (if M \<noteq> []
        then [''MEDIUM PRIORITY MODELS (10,000-100,000 downloads)'',
              rule_line CHR ''-'',
              ''Total: '' @ digits (length M) @ '' models'',
              ''Top 20:'']
             @ map medium_entry (take 20 M)
             @ [[]]
        else [])"
    by (simp add: medium_section_def medium_listing_def mn ml M_def)
  have s5: "commands_section c
     = [''SUGGESTED SCRAPING COMMANDS'',
        rule_line CHR ''-'',
        ''High priority models (copy and run):'',
        []]
       @ map (\<lambda>m. ''python model_scraper.py '' @ get_id_or_unknown m) (take 10 H)
       @ [[], rule_line CHR ''='']"
    by (simp add: commands_section_def command_listing_def H_def)
  have rep: "fst (generate_report ms reg out)
        = py_join [CHR 0x0A]
            ([rule_line CHR ''='',
              ''MODEL OPENNESS TOOL - MISSING MODELS REPORT'',
              rule_line CHR ''='',
              [],
              ''SUMMARY'',
              rule_line CHR ''-'',
              ''Models in MOT database:     '' @ fmt_commas (int (length reg)),
              ''Missing models found:       '' @ fmt_commas (int (length ms)),
              ''  - High priority (>100k):  '' @ fmt_commas (int (length H)),
              ''  - Medium priority (10k+): '' @ fmt_commas (int (length M)),
              ''  - Low priority (<10k):    ''
                @ fmt_commas (int (length (filter (\<lambda>m. get_downloads m < 10000) ms))),
              [],
              ''MISSING MODELS BY TYPE'',
              rule_line CHR ''-'']
             @ map type_line R
             @ [[]]
             @ (if H \<noteq> []
                then [''HIGH PRIORITY MODELS (>100,000 downloads)'', rule_line CHR ''-'']
                     @ concat (map high_entry (take 50 H))
                else [])
             @ (if M \<noteq> []
                then [''MEDIUM PRIORITY MODELS (10,000-100,000 downloads)'',
                      rule_line CHR ''-'',
                      ''Total: '' @ digits (length M) @ '' models'',
                      ''Top 20:'']
                     @ map medium_entry (take 20 M)
                     @ [[]]
                else [])
             @ [''SUGGESTED SCRAPING COMMANDS'',
                rule_line CHR ''-'',
                ''High priority models (copy and run):'',
                []]
             @ map (\<lambda>m. ''python model_scraper.py '' @ get_id_or_unknown m) (take 10 H)
             @ [[], rule_line CHR ''=''])"
    unfolding generate_report_def report_lines_def Let_def c_def[symmetric] s1 s2 s3 s4 s5
    by simp
  have r1: "mset R = mset T" by (simp add: R_def py_sorted_desc_mset bt)
  have r2: "sorted_wrt (\<lambda>a b. length (snd a) \<ge> length (snd b)) R"
    using py_sorted_desc_sorted[of "\<lambda>x. int (length (snd x))" "by_type c"]
    by (simp add: R_def)
  have r3: "\<forall>n. filter (\<lambda>r. length (snd r) = n) R = filter (\<lambda>r. length (snd r) = n) T"
  proof
    fix n
    show "filter (\<lambda>r. length (snd r) = n) R = filter (\<lambda>r. length (snd r) = n) T"
      using py_sorted_desc_stable[of "\<lambda>x. int (length (snd x))" "int n" "by_type c"]
      by (simp add: R_def bt)
  qed
  have h1: "mset H = mset (filter (\<lambda>m. 100000 \<le> get_downloads m) ms)"
    by (simp add: H_def py_sorted_desc_mset hp)
  have h2: "sorted_wrt (\<lambda>a b. get_downloads a \<ge> get_downloads b) H"
    unfolding H_def by (rule py_sorted_desc_sorted)
  have h3: "\<forall>d. filter (\<lambda>m. get_downloads m = d) H
               = filter (\<lambda>m. get_downloads m = d \<and> 100000 \<le> get_downloads m) ms"
    by (simp add: H_def py_sorted_desc_stable hp conj_commute)
  have m1: "mset M
          = mset (filter (\<lambda>m. 10000 \<le> get_downloads m \<and> get_downloads m < 100000) ms)"
    by (simp add: M_def py_sorted_desc_mset mp)
  have m2: "sorted_wrt (\<lambda>a b. get_downloads a \<ge> get_downloads b) M"
    unfolding M_def by (rule py_sorted_desc_sorted)
  have m3: "\<forall>d. filter (\<lambda>m. get_downloads m = d) M
               = filter (\<lambda>m. get_downloads m = d
                              \<and> 10000 \<le> get_downloads m \<and> get_downloads m < 100000) ms"
    by (simp add: M_def py_sorted_desc_stable mp conj_commute)
  have ex: "\<exists>rows high medium.
      fst (generate_report ms reg out)
        = py_join [CHR 0x0A]
            ([rule_line CHR ''='',
              ''MODEL OPENNESS TOOL - MISSING MODELS REPORT'',
              rule_line CHR ''='',
              [],
              ''SUMMARY'',
              rule_line CHR ''-'',
              ''Models in MOT database:     '' @ fmt_commas (int (length reg)),
              ''Missing models found:       '' @ fmt_commas (int (length ms)),
              ''  - High priority (>100k):  '' @ fmt_commas (int (length high)),
              ''  - Medium priority (10k+): '' @ fmt_commas (int (length medium)),
              ''  - Low priority (<10k):    ''
                @ fmt_commas (int (length (filter (\<lambda>m. get_downloads m < 10000) ms))),
              [],
              ''MISSING MODELS BY TYPE'',
              rule_line CHR ''-'']
             @ map type_line rows
             @ [[]]
             @ (if high \<noteq> []
                then [''HIGH PRIORITY MODELS (>100,000 downloads)'', rule_line CHR ''-'']
                     @ concat (map high_entry (take 50 high))
                else [])
             @ (if medium \<noteq> []
                then [''MEDIUM PRIORITY MODELS (10,000-100,000 downloads)'',
                      rule_line CHR ''-'',
                      ''Total: '' @ digits (length medium) @ '' models'',
                      ''Top 20:'']
                     @ map medium_entry (take 20 medium)
                     @ [[]]
                else [])
             @ [''SUGGESTED SCRAPING COMMANDS'',
                rule_line CHR ''-'',
                ''High priority models (copy and run):'',
                []]
             @ map (\<lambda>m. ''python model_scraper.py '' @ get_id_or_unknown m) (take 10 high)
             @ [[], rule_line CHR ''=''])
      \<and> mset rows = mset T
      \<and> sorted_wrt (\<lambda>a b. length (snd a) \<ge> length (snd b)) rows
      \<and> (\<forall>n. filter (\<lambda>r. length (snd r) = n) rows = filter (\<lambda>r. length (snd r) = n) T)
      \<and> mset high = mset (filter (\<lambda>m. 100000 \<le> get_downloads m) ms)
      \<and> sorted_wrt (\<lambda>a b. get_downloads a \<ge> get_downloads b) high
      \<and> (\<forall>d. filter (\<lambda>m. get_downloads m = d) high
               = filter (\<lambda>m. get_downloads m = d \<and> 100000 \<le> get_downloads m) ms)
      \<and> mset medium
          = mset (filter (\<lambda>m. 10000 \<le> get_downloads m \<and> get_downloads m < 100000) ms)
      \<and> sorted_wrt (\<lambda>a b. get_downloads a \<ge> get_downloads b) medium
      \<and> (\<forall>d. filter (\<lambda>m. get_downloads m = d) medium
               = filter (\<lambda>m. get_downloads m = d
                              \<and> 10000 \<le> get_downloads m \<and> get_downloads m < 100000) ms)"
    apply (rule exI[of _ R], rule exI[of _ H], rule exI[of _ M])
    using rep r1 r2 r3 h1 h2 h3 m1 m2 m3 by (intro conjI)
  have dep: "\<forall>reg' out'. length reg' = length reg
          \<longrightarrow> fst (generate_report ms reg' out') = fst (generate_report ms reg out)"
    by (simp add: generate_report_def report_lines_def summary_section_def Let_def)
  show ?thesis using ex[unfolded T_def] dep by (intro conjI)
qed

lemma sample_registries_length:
  "length (get_mot_models (Some [(''b.yml'', Some (registry_doc ''Mistral-7B''))]))
     = length (get_mot_models (Some [(''a.yml'', Some (registry_doc ''Llama-2-7B''))]))"
  by code_simp

lemma sample_registries_differ:
  "get_mot_models (Some [(''b.yml'', Some (registry_doc ''Mistral-7B''))])
     \<noteq> get_mot_models (Some [(''a.yml'', Some (registry_doc ''Llama-2-7B''))])"
  by code_simp

theorem generate_report_deterministic_witness:
  "length (get_mot_models (Some [(''b.yml'', Some (registry_doc ''Mistral-7B''))]))
     = length (get_mot_models (Some [(''a.yml'', Some (registry_doc ''Llama-2-7B''))]))
   \<and> get_mot_models (Some [(''b.yml'', Some (registry_doc ''Mistral-7B''))])
     \<noteq> get_mot_models (Some [(''a.yml'', Some (registry_doc ''Llama-2-7B''))])
   \<and> fst (generate_report sample_listing
             (get_mot_models (Some [(''b.yml'', Some (registry_doc ''Mistral-7B''))]))
             (Some ''report.txt''))
     = fst (generate_report sample_listing
             (get_mot_models (Some [(''a.yml'', Some (registry_doc ''Llama-2-7B''))])) None)
   \<and> py_split CHR 0x0A
        (fst (generate_report sample_listing
               (get_mot_models (Some [(''b.yml'', Some (registry_doc ''Mistral-7B''))]))
               (Some ''report.txt'')))
     = py_split CHR 0x0A
        (fst (generate_report sample_listing
               (get_mot_models (Some [(''a.yml'', Some (registry_doc ''Llama-2-7B''))])) None))"
proof -
  define reg where "reg = get_mot_models (Some [(''a.yml'', Some (registry_doc ''Llama-2-7B''))])"
  define reg' where "reg' = get_mot_models (Some [(''b.yml'', Some (registry_doc ''Mistral-7B''))])"
  have l: "length reg' = length reg" unfolding reg_def reg'_def by (rule sample_registries_length)
  have d: "reg' \<noteq> reg" unfolding reg_def reg'_def by (rule sample_registries_differ)
  have "\<forall>r o'. length r = length reg
          \<longrightarrow> fst (generate_report sample_listing r o') = fst (generate_report sample_listing reg None)"
    using generate_report_deterministic[of sample_listing reg None] by (rule conjunct2)
  then have e: "fst (generate_report sample_listing reg' (Some ''report.txt''))
      = fst (generate_report sample_listing reg None)"
    using l by blast
  then have f: "py_split CHR 0x0A (fst (generate_report sample_listing reg' (Some ''report.txt'')))
      = py_split CHR 0x0A (fst (generate_report sample_listing reg None))"
    by simp
  show ?thesis using l d e f unfolding reg_def reg'_def by (intro conjI)
qed

subsection \<open>Licence and component detection\<close>

lemma license_from_files_const: "license_from_files fs = JStr ''unlicensed''"
  by (simp add: license_from_files_def)

lemma detect_license_cases:
  "detect_license sd =
     (case (case mi_cardData (sd_model_info sd) of None \<Rightarrow> None
            | Some cd \<Rightarrow> map_of cd ''license'') of
        None \<Rightarrow> JStr ''unlicensed''
      | Some v \<Rightarrow> if truthy v \<and> v \<noteq> JStr ''other'' then v else JStr ''unlicensed'')"
  by (simp add: detect_license_def license_from_files_const Let_def split: option.splits)

text \<open>
  Claim C5. \<^verbatim>\<open>_detect_license\<close> returns the value of the licence field of the
  model-info blob (\<^verbatim>\<open>cardData.license\<close>) when that field is present, truthy and not
  \<^verbatim>\<open>'other'\<close>; in every other case it returns \<^verbatim>\<open>'unlicensed'\<close>. The file listing has
  no influence on the result, so a \<^verbatim>\<open>LICENSE\<close> file never produces another name.
\<close>

theorem detect_license_spec:
  "detect_license sd =
     (case (case mi_cardData (sd_model_info sd) of None \<Rightarrow> None
            | Some cd \<Rightarrow> map_of cd ''license'') of
        None \<Rightarrow> JStr ''unlicensed''
      | Some v \<Rightarrow> if truthy v \<and> v \<noteq> JStr ''other'' then v else JStr ''unlicensed'')
   \<and> (\<forall>fs. detect_license (sd\<lparr>sd_repo_files := fs\<rparr>) = detect_license sd)"
proof -
  have "\<forall>fs. detect_license (sd\<lparr>sd_repo_files := fs\<rparr>) = detect_license sd"
    by (simp add: detect_license_cases)
  then show ?thesis using detect_license_cases[of sd] by (intro conjI)
qed

lemma detect_license_invariant:
  "truthy (detect_license sd) \<and> detect_license sd \<noteq> JStr ''other''
   \<and> (detect_license sd = JStr ''unlicensed''
       \<or> (\<exists>cd. mi_cardData (sd_model_info sd) = Some cd
                \<and> map_of cd ''license'' = Some (detect_license sd)))"
  by (auto simp: detect_license_cases split: option.splits)

lemma component_licenses:
  "c \<in> set (detect_components sd) \<Longrightarrow>
     comp_license c = JStr ''unlicensed'' \<or> comp_license c = detect_license sd"
  by (auto simp: detect_components_def detect_parameters_def detect_metadata_def
        detect_architecture_code_def detect_inference_code_def detect_model_card_def
        detect_technical_report_def detect_research_paper_def detect_evaluation_results_def
        detect_training_dataset_def split: if_splits)

text \<open>
  Claim C10. The value that \<^verbatim>\<open>_detect_license\<close> returns is truthy and is not
  \<^verbatim>\<open>'other'\<close>: it is \<^verbatim>\<open>'unlicensed'\<close> or the value of the licence field of the
  blob, unchanged. Every component of \<^verbatim>\<open>detect_components\<close> carries a licence with the
  same property: \<^verbatim>\<open>'unlicensed'\<close> or the detected licence.
\<close>

theorem license_never_other:
  "truthy (detect_license sd) \<and> detect_license sd \<noteq> JStr ''other''
   \<and> (detect_license sd = JStr ''unlicensed''
       \<or> (\<exists>cd. mi_cardData (sd_model_info sd) = Some cd
                \<and> map_of cd ''license'' = Some (detect_license sd)))
   \<and> (\<forall>c \<in> set (detect_components sd).
         truthy (comp_license c) \<and> comp_license c \<noteq> JStr ''other''
         \<and> (comp_license c = JStr ''unlicensed'' \<or> comp_license c = detect_license sd))"
proof -
  have a: "truthy (detect_license sd)" and b: "detect_license sd \<noteq> JStr ''other''"
    using detect_license_invariant[of sd] by blast+
  have c: "\<forall>c \<in> set (detect_components sd).
         truthy (comp_license c) \<and> comp_license c \<noteq> JStr ''other''
         \<and> (comp_license c = JStr ''unlicensed'' \<or> comp_license c = detect_license sd)"
  proof
    fix c assume "c \<in> set (detect_components sd)"
    from component_licenses[OF this] a b
    show "truthy (comp_license c) \<and> comp_license c \<noteq> JStr ''other''
         \<and> (comp_license c = JStr ''unlicensed'' \<or> comp_license c = detect_license sd)"
      by auto
  qed
  show ?thesis using detect_license_invariant[of sd] c by blast
qed


theorem detect_license_spec_witness:
  "detect_license (scraped_example None [] [''LICENSE'', ''LICENSE.md'']) = JStr ''unlicensed''
   \<and> detect_license (scraped_example (Some [(''license'', JStr ''other'')]) [] [''LICENSE''])
       = JStr ''unlicensed''
   \<and> detect_license (scraped_example (Some [(''license'', JStr [])]) [] [''LICENSE''])
       = JStr ''unlicensed''
   \<and> detect_license (scraped_example (Some [(''tags'', JArr [])]) [] [''LICENSE''])
       = JStr ''unlicensed''
   \<and> detect_license (scraped_example (Some [(''license'', JStr ''apache-2.0'')]) [] [])
       = JStr ''apache-2.0''
   \<and> detect_license (scraped_example (Some [(''license'', JArr [JStr ''mit'', JStr ''cc-by-4.0''])]) [] [])
       = JArr [JStr ''mit'', JStr ''cc-by-4.0'']"
proof -
  have a: "detect_license (scraped_example None [] [''LICENSE'', ''LICENSE.md'']) = JStr ''unlicensed''"
    using detect_license_spec[of "scraped_example None [] [''LICENSE'', ''LICENSE.md'']"]
    by (simp add: scraped_example_def)
  have b: "detect_license (scraped_example (Some [(''license'', JStr ''other'')]) [] [''LICENSE''])
       = JStr ''unlicensed''"
    using detect_license_spec[of "scraped_example (Some [(''license'', JStr ''other'')]) [] [''LICENSE'']"]
    by (simp add: scraped_example_def)
  have c: "detect_license (scraped_example (Some [(''license'', JStr [])]) [] [''LICENSE''])
       = JStr ''unlicensed''"
    using detect_license_spec[of "scraped_example (Some [(''license'', JStr [])]) [] [''LICENSE'']"]
    by (simp add: scraped_example_def)
  have d: "detect_license (scraped_example (Some [(''tags'', JArr [])]) [] [''LICENSE''])
       = JStr ''unlicensed''"
    using detect_license_spec[of "scraped_example (Some [(''tags'', JArr [])]) [] [''LICENSE'']"]
    by (simp add: scraped_example_def)
  have e: "detect_license (scraped_example (Some [(''license'', JStr ''apache-2.0'')]) [] [])
       = JStr ''apache-2.0''"
    using detect_license_spec[of "scraped_example (Some [(''license'', JStr ''apache-2.0'')]) [] []"]
    by (simp add: scraped_example_def)
  have f: "detect_license (scraped_example (Some [(''license'', JArr [JStr ''mit'', JStr ''cc-by-4.0''])]) [] [])
       = JArr [JStr ''mit'', JStr ''cc-by-4.0'']"
    using detect_license_spec[of "scraped_example (Some [(''license'', JArr [JStr ''mit'', JStr ''cc-by-4.0''])]) [] []"]
    by (simp add: scraped_example_def)
  show ?thesis using a b c d e f by (intro conjI)
qed

lemmas detector_defs = detect_components_def detect_parameters_def detect_metadata_def
  detect_architecture_code_def detect_inference_code_def detect_model_card_def
  detect_technical_report_def detect_research_paper_def detect_evaluation_results_def
  detect_training_dataset_def any_keyword_def py_endswith_any_def py_endswith_def

lemmas char_defs = py_lower_def lower_char_def upper_char_def py_upper_def ascii_upper_def
  ascii_lower_def replace_char_def

lemma example_component_licenses:
  "map comp_license (detect_components
      (scraped_example (Some [(''license'', JStr ''apache-2.0'')]) ''See the Paper.''
            [''model.safetensors'', ''config.json'']))
   = [JStr ''apache-2.0'', JStr ''apache-2.0'', JStr ''apache-2.0'', JStr ''unlicensed'']"
  by code_simp


theorem license_never_other_witness:
  "truthy (detect_license
      (scraped_example (Some [(''license'', JStr ''apache-2.0'')]) ''See the Paper.''
            [''model.safetensors'', ''config.json'']))
   \<and> detect_license
      (scraped_example (Some [(''license'', JStr ''apache-2.0'')]) ''See the Paper.''
            [''model.safetensors'', ''config.json'']) \<noteq> JStr ''other''
   \<and> map comp_license (detect_components
      (scraped_example (Some [(''license'', JStr ''apache-2.0'')]) ''See the Paper.''
            [''model.safetensors'', ''config.json'']))
   = [JStr ''apache-2.0'', JStr ''apache-2.0'', JStr ''apache-2.0'', JStr ''unlicensed'']
   \<and> list_all (\<lambda>c. truthy (comp_license c) \<and> comp_license c \<noteq> JStr ''other'')
        (detect_components
          (scraped_example (Some [(''license'', JStr ''apache-2.0'')]) ''See the Paper.''
            [''model.safetensors'', ''config.json'']))"
proof -
  define sd where "sd = scraped_example (Some [(''license'', JStr ''apache-2.0'')]) ''See the Paper.''
            [''model.safetensors'', ''config.json'']"
  note w = license_never_other[of sd]
  have a: "truthy (detect_license sd)" using w by (rule conjunct1)
  have b: "detect_license sd \<noteq> JStr ''other''" using w by blast
  have c: "\<forall>c \<in> set (detect_components sd).
         truthy (comp_license c) \<and> comp_license c \<noteq> JStr ''other''"
    using w by blast
  have d: "list_all (\<lambda>c. truthy (comp_license c) \<and> comp_license c \<noteq> JStr ''other'')
        (detect_components sd)"
    using c by (simp add: list_all_iff)
  show ?thesis using a b example_component_licenses d unfolding sd_def by (intro conjI)
qed

lemma no_keywords_in_empty_card:
  "\<not> any_keyword [''technical report'', ''tech report'', ''documentation''] []"
  "\<not> any_keyword [''paper'', ''arxiv'', ''publication''] []"
  "\<not> any_keyword [''evaluation'', ''benchmark'', ''performance'', ''results''] []"
  "\<not> any_keyword [''training data'', ''trained on'', ''dataset''] []"
  by (simp_all add: any_keyword_def)

text \<open>
  Claim C9, as amended. When the file listing contains \<^verbatim>\<open>model.safetensors\<close> and
  \<^verbatim>\<open>config.json\<close>, no file ending in \<^verbatim>\<open>.py\<close>, no \<^verbatim>\<open>README.md\<close>, no file whose
  lower-cased name contains \<^verbatim>\<open>inference\<close> or \<^verbatim>\<open>generate\<close>, when the listing joined by
  spaces does not contain \<^verbatim>\<open>modeling\<close>, and the description is empty, then
  \<^verbatim>\<open>detect_components\<close> returns exactly two components, named
  \<^verbatim>\<open>Model parameters (Final)\<close> and \<^verbatim>\<open>Model metadata\<close>, and none named
  \<^verbatim>\<open>Model architecture\<close>.
\<close>

theorem two_components:
  assumes "''model.safetensors'' \<in> set (sd_repo_files sd)"
    and "''config.json'' \<in> set (sd_repo_files sd)"
    and "\<forall>f \<in> set (sd_repo_files sd). \<not> py_endswith f ''.py''"
    and "sd_model_card sd = []"
    and "\<not> py_in ''modeling'' (py_join '' '' (sd_repo_files sd))"
    and "\<forall>f \<in> set (sd_repo_files sd).
           \<not> py_in ''inference'' (py_lower f) \<and> \<not> py_in ''generate'' (py_lower f)"
    and "''README.md'' \<notin> set (sd_repo_files sd)"
  shows "detect_components sd =
     [\<lparr>comp_name = ''Model parameters (Final)'',
       comp_description = ''Trained model parameters, weights and biases'',
       comp_license = detect_license sd,
       comp_confidence = 95 / 100,
       comp_location = ''HuggingFace repository''\<rparr>,
      \<lparr>comp_name = ''Model metadata'',
       comp_description =
         ''Any model metadata including training configuration and optimizer states'',
       comp_license = detect_license sd,
       comp_confidence = 90 / 100,
       comp_location = ''HuggingFace repository''\<rparr>]
   \<and> map comp_name (detect_components sd) = [''Model parameters (Final)'', ''Model metadata'']
   \<and> length (detect_components sd) = 2
   \<and> ''Model architecture'' \<notin> set (map comp_name (detect_components sd))"
proof -
  have p: "list_ex (\<lambda>f. py_endswith_any f [''.bin'', ''.safetensors'', ''.pt'', ''.pth'', ''.ckpt''])
           (sd_repo_files sd)"
    unfolding list_ex_iff
    by (rule bexI[OF _ assms(1)]) (simp add: py_endswith_any_def py_endswith_def suffix_def)
  have m: "list_ex (\<lambda>f. f \<in> set (sd_repo_files sd))
           [''config.json'', ''model_config.json'', ''configuration.json'']"
    using assms(2) by simp
  have a: "\<not> list_ex (\<lambda>f. py_endswith f ''.py'') (sd_repo_files sd)"
    using assms(3) by (simp add: list_ex_iff)
  have i: "\<not> list_ex (\<lambda>f. py_in ''inference'' (py_lower f) \<or> py_in ''generate'' (py_lower f))
           (sd_repo_files sd)"
    using assms(6) by (simp add: list_ex_iff)
  have c: "py_lower (sd_model_card sd) = []" using assms(4) by (simp add: py_lower_def)
  have e: "detect_components sd =
     [\<lparr>comp_name = ''Model parameters (Final)'',
       comp_description = ''Trained model parameters, weights and biases'',
       comp_license = detect_license sd,
       comp_confidence = 95 / 100,
       comp_location = ''HuggingFace repository''\<rparr>,
      \<lparr>comp_name = ''Model metadata'',
       comp_description =
         ''Any model metadata including training configuration and optimizer states'',
       comp_license = detect_license sd,
       comp_confidence = 90 / 100,
       comp_location = ''HuggingFace repository''\<rparr>]"
    unfolding detect_components_def detect_parameters_def detect_metadata_def
      detect_architecture_code_def detect_inference_code_def detect_model_card_def
      detect_technical_report_def detect_research_paper_def detect_evaluation_results_def
      detect_training_dataset_def
    using p m a i assms(5) assms(7) no_keywords_in_empty_card
    by (simp add: assms(4) py_lower_def)
  show ?thesis unfolding e by simp
qed


theorem two_components_witness:
  "''model.safetensors'' \<in> set [''model.safetensors'', ''config.json'']
   \<and> ''config.json'' \<in> set [''model.safetensors'', ''config.json'']
   \<and> list_all (\<lambda>f. \<not> py_endswith f ''.py'') [''model.safetensors'', ''config.json'']
   \<and> \<not> py_in ''modeling'' (py_join '' '' [''model.safetensors'', ''config.json''])
   \<and> list_all (\<lambda>f. \<not> py_in ''inference'' (py_lower f) \<and> \<not> py_in ''generate'' (py_lower f))
         [''model.safetensors'', ''config.json'']
   \<and> ''README.md'' \<notin> set [''model.safetensors'', ''config.json'']
   \<and> map comp_name (detect_components
          (scraped_example None [] [''model.safetensors'', ''config.json'']))
       = [''Model parameters (Final)'', ''Model metadata'']
   \<and> length (detect_components
          (scraped_example None [] [''model.safetensors'', ''config.json''])) = 2
   \<and> ''Model architecture'' \<notin> set (map comp_name (detect_components
          (scraped_example None [] [''model.safetensors'', ''config.json''])))"
proof -
  define sd where "sd = scraped_example None [] [''model.safetensors'', ''config.json'']"
  have fs: "sd_repo_files sd = [''model.safetensors'', ''config.json'']"
    and cd: "sd_model_card sd = []"
    by (simp_all add: sd_def scraped_example_def)
  have h1: "''model.safetensors'' \<in> set (sd_repo_files sd)" by (simp add: fs)
  have h2: "''config.json'' \<in> set (sd_repo_files sd)" by (simp add: fs)
  have h3: "\<forall>f \<in> set (sd_repo_files sd). \<not> py_endswith f ''.py''"
    by (simp add: fs py_endswith_def suffix_def)
  have h5: "\<not> py_in ''modeling'' (py_join '' '' (sd_repo_files sd))"
    unfolding fs by code_simp
  have h6: "\<forall>f \<in> set (sd_repo_files sd).
           \<not> py_in ''inference'' (py_lower f) \<and> \<not> py_in ''generate'' (py_lower f)"
    unfolding fs by code_simp
  have h7: "''README.md'' \<notin> set (sd_repo_files sd)" by (simp add: fs)
  note w = two_components[OF h1 h2 h3 cd h5 h6 h7]
  have r1: "map comp_name (detect_components sd)
       = [''Model parameters (Final)'', ''Model metadata'']" using w by blast
  have r2: "length (detect_components sd) = 2" using w by blast
  have r3: "''Model architecture'' \<notin> set (map comp_name (detect_components sd))"
    using w by blast
  have g3: "list_all (\<lambda>f. \<not> py_endswith f ''.py'') [''model.safetensors'', ''config.json'']"
    using h3 unfolding fs by (simp add: list_all_iff)
  have g6: "list_all (\<lambda>f. \<not> py_in ''inference'' (py_lower f) \<and> \<not> py_in ''generate'' (py_lower f))
         [''model.safetensors'', ''config.json'']"
    using h6 unfolding fs by (simp add: list_all_iff)
  show ?thesis
    using h1[unfolded fs] h2[unfolded fs] g3 h5[unfolded fs] g6 h7[unfolded fs] r1 r2 r3
    unfolding sd_def by (intro conjI)
qed

text \<open>
  The claim as first stated fails: a listing that also holds \<^verbatim>\<open>README.md\<close> satisfies
  its conditions and yields three components.
\<close>

theorem two_components_counterexample:
  "''model.safetensors'' \<in> set [''model.safetensors'', ''config.json'', ''README.md'']
   \<and> ''config.json'' \<in> set [''model.safetensors'', ''config.json'', ''README.md'']
   \<and> list_all (\<lambda>f. \<not> py_endswith f ''.py'')
         [''model.safetensors'', ''config.json'', ''README.md'']
   \<and> sd_model_card (scraped_example None []
          [''model.safetensors'', ''config.json'', ''README.md'']) = []
   \<and> map comp_name (detect_components
          (scraped_example None [] [''model.safetensors'', ''config.json'', ''README.md'']))
       = [''Model parameters (Final)'', ''Model metadata'', ''Model card'']
   \<and> length (detect_components
          (scraped_example None [] [''model.safetensors'', ''config.json'', ''README.md''])) = 3"
  by code_simp

subsection \<open>The single-model fetch and the command line\<close>

text \<open>
  Claim C4. In \<^verbatim>\<open>scrape_huggingface_model\<close>, when the model-info fetch succeeded, a
  failure of the model-card fetch (an exception of the request, or a status other than
  200) leaves the card empty and a failure of the file-tree fetch leaves the file list
  empty, and the operation still returns the populated dictionary. A failure of the
  model-info fetch (an exception of the request, or a status that
  \<^verbatim>\<open>raise_for_status\<close> rejects) makes it return the empty result, and \<^verbatim>\<open>main\<close>
  turns the empty result into exit status 1.
\<close>

theorem scrape_failure_handling:
  "((card_response = RequestFailed \<or> (\<exists>s t. card_response = Response s t \<and> s \<noteq> 200))
      \<and> \<not> raises_for_status st
     \<longrightarrow> scrape_huggingface_model model_id (Response st (Some info)) card_response files_response
         = Some \<lparr>sd_model_id = model_id, sd_model_info = info, sd_model_card = [],
                  sd_repo_files = fetch_repo_files files_response\<rparr>)
   \<and> ((files_response = RequestFailed \<or> (\<exists>s b. files_response = Response s b \<and> s \<noteq> 200))
      \<and> \<not> raises_for_status st
     \<longrightarrow> scrape_huggingface_model model_id (Response st (Some info)) card_response files_response
         = Some \<lparr>sd_model_id = model_id, sd_model_info = info,
                  sd_model_card = fetch_model_card card_response, sd_repo_files = []\<rparr>)
   \<and> ((info_response = RequestFailed
        \<or> (\<exists>s b. info_response = Response s b \<and> raises_for_status s))
     \<longrightarrow> scrape_huggingface_model model_id info_response card_response files_response = None)
   \<and> (scrape_huggingface_model model_id info_response card_response files_response = None
     \<longrightarrow> scraper_main model_id output_dir info_response card_response files_response today detected
           = Exited 1
         \<and> exit_status (scraper_main model_id output_dir info_response card_response
                           files_response today detected) \<noteq> 0)"
proof (intro conjI impI)
  assume "(card_response = RequestFailed \<or> (\<exists>s t. card_response = Response s t \<and> s \<noteq> 200))
      \<and> \<not> raises_for_status st"
  then show "scrape_huggingface_model model_id (Response st (Some info)) card_response files_response
         = Some \<lparr>sd_model_id = model_id, sd_model_info = info, sd_model_card = [],
                  sd_repo_files = fetch_repo_files files_response\<rparr>"
    by (auto simp: scrape_huggingface_model_def fetch_model_card_def)
next
  assume "(files_response = RequestFailed \<or> (\<exists>s b. files_response = Response s b \<and> s \<noteq> 200))
      \<and> \<not> raises_for_status st"
  then show "scrape_huggingface_model model_id (Response st (Some info)) card_response files_response
         = Some \<lparr>sd_model_id = model_id, sd_model_info = info,
                  sd_model_card = fetch_model_card card_response, sd_repo_files = []\<rparr>"
    by (auto simp: scrape_huggingface_model_def fetch_repo_files_def)
next
  assume "info_response = RequestFailed
        \<or> (\<exists>s b. info_response = Response s b \<and> raises_for_status s)"
  then show "scrape_huggingface_model model_id info_response card_response files_response = None"
    by (auto simp: scrape_huggingface_model_def)
next
  assume n: "scrape_huggingface_model model_id info_response card_response files_response = None"
  then show "scraper_main model_id output_dir info_response card_response files_response today detected
           = Exited 1"
    by (simp add: scraper_main_def)
  from n show "exit_status (scraper_main model_id output_dir info_response card_response
                           files_response today detected) \<noteq> 0"
    by (simp add: scraper_main_def exit_status_def)
qed

theorem scrape_failure_handling_witness:
  "\<not> raises_for_status 200
   \<and> scrape_huggingface_model ''org/m'' (Response 200 (Some info_example))
        (Response 404 ''Not Found'') (Response 200 (Some [''config.json'']))
       = Some \<lparr>sd_model_id = ''org/m'', sd_model_info = info_example, sd_model_card = [],
                sd_repo_files = [''config.json'']\<rparr>
   \<and> scrape_huggingface_model ''org/m'' (Response 200 (Some info_example))
        (Response 200 ''A card'') RequestFailed
       = Some \<lparr>sd_model_id = ''org/m'', sd_model_info = info_example, sd_model_card = ''A card'',
                sd_repo_files = []\<rparr>
   \<and> raises_for_status 404
   \<and> scrape_huggingface_model ''org/m'' (Response 404 None)
        (Response 200 ''A card'') (Response 200 (Some [''config.json''])) = None
   \<and> scraper_main ''org/m'' ''../models'' (Response 404 None)
        (Response 200 ''A card'') (Response 200 (Some [''config.json''])) ''2026-01-01'' ([], 0)
       = Exited 1
   \<and> exit_status (scraper_main ''org/m'' ''../models'' (Response 404 None)
        (Response 200 ''A card'') (Response 200 (Some [''config.json''])) ''2026-01-01'' ([], 0)) \<noteq> 0"
proof -
  have ok: "\<not> raises_for_status 200" by (simp add: raises_for_status_def)
  have bad: "raises_for_status 404" by (simp add: raises_for_status_def)
  note w1 = scrape_failure_handling[of "Response 404 ''Not Found''" 200 "''org/m''" info_example
      "Response 200 (Some [''config.json''])" "Response 404 None" "''../models''" "''2026-01-01''" "([], 0)"]
  note w2 = scrape_failure_handling[of "Response 200 ''A card''" 200 "''org/m''" info_example
      RequestFailed "Response 404 None" "''../models''" "''2026-01-01''" "([], 0)"]
  note w3 = scrape_failure_handling[of "Response 200 ''A card''" 200 "''org/m''" info_example
      "Response 200 (Some [''config.json''])" "Response 404 None" "''../models''" "''2026-01-01''" "([], 0)"]
  have a: "scrape_huggingface_model ''org/m'' (Response 200 (Some info_example))
        (Response 404 ''Not Found'') (Response 200 (Some [''config.json'']))
       = Some \<lparr>sd_model_id = ''org/m'', sd_model_info = info_example, sd_model_card = [],
                sd_repo_files = [''config.json'']\<rparr>"
    using w1 ok by (simp add: fetch_repo_files_def)
  have b: "scrape_huggingface_model ''org/m'' (Response 200 (Some info_example))
        (Response 200 ''A card'') RequestFailed
       = Some \<lparr>sd_model_id = ''org/m'', sd_model_info = info_example, sd_model_card = ''A card'',
                sd_repo_files = []\<rparr>"
    using w2 ok by (simp add: fetch_model_card_def)
  have c: "scrape_huggingface_model ''org/m'' (Response 404 None)
        (Response 200 ''A card'') (Response 200 (Some [''config.json''])) = None"
    using w3 bad by blast
  have d: "scraper_main ''org/m'' ''../models'' (Response 404 None)
        (Response 200 ''A card'') (Response 200 (Some [''config.json''])) ''2026-01-01'' ([], 0)
       = Exited 1"
    using w3 c by blast
  have e: "exit_status (scraper_main ''org/m'' ''../models'' (Response 404 None)
        (Response 200 ''A card'') (Response 200 (Some [''config.json''])) ''2026-01-01'' ([], 0)) \<noteq> 0"
    using w3 c by blast
  show ?thesis using ok a b bad c d e by (intro conjI)
qed

subsection \<open>The architecture field\<close>

lemma detect_architecture_nonempty:
  "detect_architecture card_text tags \<noteq> [] \<longleftrightarrow>
      py_in ''transformer'' (py_lower card_text)
      \<or> py_in ''transformer'' (py_lower (py_str_list tags))
      \<or> py_in ''diffusion'' (py_lower card_text)
      \<or> py_in ''diffusion'' (py_lower (py_str_list tags))"
  by (simp add: detect_architecture_def Let_def)

lemma md_architecture_extract:
  "md_architecture (extract_model_metadata scraped today detected)
     = detect_architecture (sd_model_card scraped)
         (case mi_tags (sd_model_info scraped) of Some ts \<Rightarrow> ts | None \<Rightarrow> [])"
  by (simp add: extract_model_metadata_def Let_def)

text \<open>
  Claim C7. The extracted architecture is not empty exactly when \<^verbatim>\<open>transformer\<close> or
  \<^verbatim>\<open>diffusion\<close> occurs in the lower-cased description or in the lower-cased \<^verbatim>\<open>str\<close>
  of the tag list (the lemma above); when \<^verbatim>\<open>transformer\<close> is found, it is refined to
  \<^verbatim>\<open>transformer decoder\<close> or to \<^verbatim>\<open>transformer encoder-decoder\<close> according to
  whether \<^verbatim>\<open>decoder\<close> or \<^verbatim>\<open>encoder-decoder\<close> occurs in the description, and is the
  plain \<^verbatim>\<open>transformer\<close> when neither occurs. The code misses the refinement: it
  tests \<^verbatim>\<open>decoder\<close> first and \<^verbatim>\<open>encoder\<close> second, so a description that names an
  encoder-decoder is labelled \<^verbatim>\<open>transformer decoder\<close>, and a description that holds
  \<^verbatim>\<open>encoder\<close> and neither \<^verbatim>\<open>decoder\<close> nor \<^verbatim>\<open>encoder-decoder\<close> is labelled
  \<^verbatim>\<open>transformer encoder-decoder\<close>. The theorem evaluates the code at both.
\<close>

theorem detect_architecture_failing_input:
  "py_in ''transformer'' (py_lower ''T5 is an encoder-decoder Transformer'')
   \<and> py_in ''encoder-decoder'' (py_lower ''T5 is an encoder-decoder Transformer'')
   \<and> detect_architecture ''T5 is an encoder-decoder Transformer'' [] = ''transformer decoder''
   \<and> md_architecture
        (extract_model_metadata
           (scraped_example None ''T5 is an encoder-decoder Transformer'' []) ''2026-01-01''
           (detect_repository no_repo_exists
              (scraped_example None ''T5 is an encoder-decoder Transformer'' [])))
       = ''transformer decoder''
   \<and> py_in ''transformer'' (py_lower ''BERT is a Transformer encoder'')
   \<and> \<not> py_in ''decoder'' (py_lower ''BERT is a Transformer encoder'')
   \<and> \<not> py_in ''encoder-decoder'' (py_lower ''BERT is a Transformer encoder'')
   \<and> detect_architecture ''BERT is a Transformer encoder'' [] = ''transformer encoder-decoder''
   \<and> md_architecture
        (extract_model_metadata
           (scraped_example None ''BERT is a Transformer encoder'' []) ''2026-01-01''
           (detect_repository no_repo_exists
              (scraped_example None ''BERT is a Transformer encoder'' [])))
       = ''transformer encoder-decoder''"
  by code_simp

subsection \<open>The draft serializer\<close>






















lemma llama_text_lines:
  "py_split CHR 0x0A (format_yaml_mot_style metadata_llama (detect_components scraped_llama))
   = [''framework:'',
      ''  name: '' @ squote ''Model Openness Framework'',
      ''  version: '' @ squote ''1.0'',
      ''  date: '' @ squote ''2024-12-15'',
      ''release:'',
      ''  name: Llama-3-8B'',
      ''  version: '' @ squote ''3'',
      ''  date: '' @ squote ''2024-04-18'',
      ''  license: {  }'',
      ''  type: '' @ squote ''language'',
      ''  architecture: '' @ squote ''transformer decoder'',
      ''  origin: llama-3-8b'',
      ''  producer: '' @ squote ''Meta Llama'',
      ''  contact: '' @ squote [],
      ''  repository: '' @ squote ''https://github.com/meta-llama/llama3'',
      ''  huggingface: '' @ squote ''https://huggingface.co/meta-llama/Llama-3-8B'',
      ''  components:'',
      ''    -'',
      ''      name: '' @ squote ''Model parameters (Final)'',
      ''      description: '' @ dquote ''Trained model parameters, weights and biases'',
      ''      license: '' @ squote ''llama3'',
      ''    -'',
      ''      name: '' @ squote ''Model metadata'',
      ''      description: '' @ dquote
         ''Any model metadata including training configuration and optimizer states'',
      ''      license: '' @ squote ''llama3'',
      ''    -'',
      ''      name: '' @ squote ''Model card'',
      ''      description: '' @ dquote
         ''Model details including performance metrics, intended use, and limitations'',
      ''      license: '' @ squote ''llama3'',
      ''    -'',
      ''      name: '' @ squote ''Research paper'',
      ''      description: '' @ dquote
         ''Research paper detailing the development and capabilities of the model'',
      ''      license: unlicensed'']"
  by code_simp



end
